theory Spec2Isabelle
  imports Complex_Main "HOL-Library.Sublist"
begin

section \<open>Python values\<close>

text \<open>
  The orchestrator passes loosely typed JSON-like data around: step inputs, agent
  results and the run state are dicts of strings to arbitrary values. A dict is an
  association list in insertion order, as a Python dict is; \<open>dict_get\<close> is
  \<^verbatim>\<open>d.get(k)\<close> and \<open>dict_set\<close> is \<^verbatim>\<open>d[k] = v\<close> (an existing key keeps its
  place, a new key goes last). Floats are modelled as reals.
\<close>

datatype pyval =
    PNone
  | PBool bool
  | PInt int
  | PFloat real
  | PStr string
  | PList "pyval list"
  | PDict "(string \<times> pyval) list"

type_synonym pydict = "(string \<times> pyval) list"

text \<open>
  A raised exception: the class name (\<^verbatim>\<open>type(e).__name__\<close>) and the message
  (\<^verbatim>\<open>str(e)\<close>). The model covers instances of \<^verbatim>\<open>Exception\<close>, which is what the
  \<^verbatim>\<open>except Exception\<close> clauses of the source catch.
\<close>

datatype pyexn = Exn (exn_type: string) (exn_msg: string)

definition dict_get :: "pydict \<Rightarrow> string \<Rightarrow> pyval option" where
  "dict_get d k = map_of d k"

fun dict_set :: "pydict \<Rightarrow> string \<Rightarrow> pyval \<Rightarrow> pydict" where
  "dict_set [] k v = [(k, v)]"
| "dict_set ((k', v') # d) k v =
     (if k' = k then (k, v) # d else (k', v') # dict_set d k v)"

text \<open>\<^verbatim>\<open>type(v).__name__\<close>, as it appears in the interpreter's error messages.\<close>

fun type_name :: "pyval \<Rightarrow> string" where
  "type_name PNone = ''NoneType''"
| "type_name (PBool _) = ''bool''"
| "type_name (PInt _) = ''int''"
| "type_name (PFloat _) = ''float''"
| "type_name (PStr _) = ''str''"
| "type_name (PList _) = ''list''"
| "type_name (PDict _) = ''dict''"

text \<open>Truthiness, as \<^verbatim>\<open>not v\<close> and \<^verbatim>\<open>if v\<close> use it.\<close>

fun truthy :: "pyval \<Rightarrow> bool" where
  "truthy PNone = False"
| "truthy (PBool b) = b"
| "truthy (PInt i) = (i \<noteq> 0)"
| "truthy (PFloat r) = (r \<noteq> 0)"
| "truthy (PStr s) = (s \<noteq> [])"
| "truthy (PList xs) = (xs \<noteq> [])"
| "truthy (PDict d) = (d \<noteq> [])"

text \<open>
  \<^verbatim>\<open>v[k] = x\<close> with a string key: only a dict accepts it, every other value raises
  TypeError with the interpreter's message for its type.
\<close>

fun set_item :: "pyval \<Rightarrow> string \<Rightarrow> pyval \<Rightarrow> pyexn + pydict" where
  "set_item (PDict d) k x = Inr (dict_set d k x)"
| "set_item (PList xs) k x =
     Inl (Exn ''TypeError'' ''list indices must be integers or slices, not str'')"
| "set_item v k x =
     Inl (Exn ''TypeError''
          ([CHR 0x27] @ type_name v @ [CHR 0x27] @ '' object does not support item assignment''))"

section \<open>The agent contract (agents/base\_agent.py)\<close>

text \<open>
  A \<^verbatim>\<open>BaseAgent\<close> instance: its identity, the three statistics fields, and the
  state \<open>'w\<close> that belongs to the concrete subclass. The two abstract methods
  \<^verbatim>\<open>_validate_input\<close> and \<^verbatim>\<open>_execute\<close> are the fields \<open>validate_input\<close> and
  \<open>execute_core\<close> of the class record: each reads and may change the subclass state
  and either raises or returns.
\<close>

record 'w base_agent =
  agent_id :: string
  agent_name :: string
  execution_count :: int
  total_execution_time :: real
  last_execution_time :: "real option"
  self_state :: 'w

record 'w agent_class =
  validate_input :: "pydict \<Rightarrow> 'w \<Rightarrow> (pyexn + bool) \<times> 'w"
  execute_core :: "pydict \<Rightarrow> 'w \<Rightarrow> (pyexn + pyval) \<times> 'w"

text \<open>
  The clock readings one call of \<^verbatim>\<open>execute\<close> makes: \<^verbatim>\<open>time.time()\<close> on entry,
  \<^verbatim>\<open>time.time()\<close> again on the path taken, and \<^verbatim>\<open>datetime.now().isoformat()\<close>.
\<close>

record clock =
  t_start :: real
  t_end :: real
  now_iso :: string

text \<open>The body of the \<^verbatim>\<open>try\<close> block of \<^verbatim>\<open>execute\<close>: \<open>Inl\<close> is an exception leaving it.\<close>

definition execute_try ::
  "'w agent_class \<Rightarrow> clock \<Rightarrow> pydict \<Rightarrow> 'w base_agent \<Rightarrow> (pyexn + pydict) \<times> 'w base_agent" where
  "execute_try cls clk input_data self =
     (case validate_input cls input_data (self_state self) of
        (Inl e, w1) \<Rightarrow> (Inl e, self\<lparr>self_state := w1\<rparr>)
      | (Inr ok, w1) \<Rightarrow>
          if \<not> ok then
            (Inl (Exn ''ValueError'' (''Input validation failed for '' @ agent_name self)),
             self\<lparr>self_state := w1\<rparr>)
          else
            (case execute_core cls input_data w1 of
               (Inl e, w2) \<Rightarrow> (Inl e, self\<lparr>self_state := w2\<rparr>)
             | (Inr output_data, w2) \<Rightarrow>
                 (let execution_time = t_end clk - t_start clk in
                  case set_item output_data ''_metadata''
                         (PDict [(''agent_name'', PStr (agent_name self)),
                                 (''agent_id'', PStr (agent_id self)),
                                 (''execution_time'', PFloat execution_time),
                                 (''timestamp'', PStr (now_iso clk)),
                                 (''success'', PBool True)]) of
                    Inl e \<Rightarrow> (Inl e, self\<lparr>self_state := w2\<rparr>)
                  | Inr out \<Rightarrow>
                      (Inr out,
                       self\<lparr>self_state := w2,
                            execution_count := execution_count self + 1,
                            total_execution_time := total_execution_time self + execution_time,
                            last_execution_time := Some execution_time\<rparr>))))"

text \<open>
  \<^verbatim>\<open>execute\<close>: the \<^verbatim>\<open>try\<close> block, and the \<^verbatim>\<open>except Exception\<close> handler that
  turns an exception into the error dict. The result is still a sum, so that
  "does not raise" is a statement about the function and not about its type.
\<close>

definition execute ::
  "'w agent_class \<Rightarrow> clock \<Rightarrow> pydict \<Rightarrow> 'w base_agent \<Rightarrow> (pyexn + pydict) \<times> 'w base_agent" where
  "execute cls clk input_data self =
     (case execute_try cls clk input_data self of
        (Inr out, self') \<Rightarrow> (Inr out, self')
      | (Inl e, self') \<Rightarrow>
          (let execution_time = t_end clk - t_start clk in
           (Inr [(''error'', PStr (exn_msg e)),
                 (''error_type'', PStr (exn_type e)),
                 (''_metadata'',
                    PDict [(''agent_name'', PStr (agent_name self')),
                           (''agent_id'', PStr (agent_id self')),
                           (''execution_time'', PFloat execution_time),
                           (''timestamp'', PStr (now_iso clk)),
                           (''success'', PBool False),
                           (''error_message'', PStr (exn_msg e))])],
            self')))"

text \<open>\<^verbatim>\<open>a / b\<close> on a float and an int: division by zero raises.\<close>

definition py_truediv :: "real \<Rightarrow> int \<Rightarrow> pyexn + real" where
  "py_truediv a b =
     (if b = 0 then Inl (Exn ''ZeroDivisionError'' ''float division by zero'')
      else Inr (a / real_of_int b))"

definition opt_float :: "real option \<Rightarrow> pyval" where
  "opt_float x = (case x of None \<Rightarrow> PNone | Some r \<Rightarrow> PFloat r)"

definition get_stats :: "'w base_agent \<Rightarrow> pyexn + pydict" where
  "get_stats self =
     (case (if execution_count self > 0
            then map_sum id PFloat (py_truediv (total_execution_time self) (execution_count self))
            else Inr (PInt 0)) of
        Inl e \<Rightarrow> Inl e
      | Inr avg \<Rightarrow>
          Inr [(''agent_name'', PStr (agent_name self)),
               (''execution_count'', PInt (execution_count self)),
               (''total_execution_time'', PFloat (total_execution_time self)),
               (''average_execution_time'', avg),
               (''last_execution_time'', opt_float (last_execution_time self))])"

text \<open>The success flag of a result's metadata envelope, when it has one.\<close>

definition metadata_success :: "pydict \<Rightarrow> pyval option" where
  "metadata_success out =
     (case dict_get out ''_metadata'' of
        Some (PDict md) \<Rightarrow> dict_get md ''success''
      | _ \<Rightarrow> None)"

section \<open>Strings\<close>

text \<open>
  \<^verbatim>\<open>s.split(sep)\<close> for a non-empty separator (both call sites pass a literal):
  scan from the left, cut at every occurrence. The result is never empty.
\<close>

function str_split :: "string \<Rightarrow> string \<Rightarrow> string \<Rightarrow> string list" where
  "str_split sep acc [] = [rev acc]"
| "str_split sep acc (c # cs) =
     (if sep \<noteq> [] \<and> prefix sep (c # cs)
      then rev acc # str_split sep [] (drop (length sep) (c # cs))
      else str_split sep (c # acc) cs)"
  by pat_completeness auto
termination
  by (relation "measure (\<lambda>(sep, acc, s). length s)") (auto simp: neq_Nil_conv)

definition py_split :: "string \<Rightarrow> string \<Rightarrow> string list" where
  "py_split s sep = str_split sep [] s"

text \<open>\<^verbatim>\<open>sub in s\<close>.\<close>

fun contains :: "string \<Rightarrow> string \<Rightarrow> bool" where
  "contains [] sub = (sub = [])"
| "contains (c # cs) sub = (prefix sub (c # cs) \<or> contains cs sub)"

text \<open>
  \<^verbatim>\<open>re.search(r'\{\{(.+?)\}\}', s)\<close>, returning group 1. From the leftmost
  \<^verbatim>\<open>{{\<close> on, the lazy \<^verbatim>\<open>.+?\<close> takes at least one character, none of them a
  newline, and stops at the first position followed by \<^verbatim>\<open>}}\<close>; when there is
  none the search goes on from the next position.
\<close>

fun lazy_group :: "string \<Rightarrow> string \<Rightarrow> string option" where
  "lazy_group acc [] = None"
| "lazy_group acc (c # cs) =
     (if c = CHR 0x0A then None
      else if prefix ''}}'' cs then Some (rev (c # acc))
      else lazy_group (c # acc) cs)"

fun re_search_ref :: "string \<Rightarrow> string option" where
  "re_search_ref [] = None"
| "re_search_ref (c # cs) =
     (if prefix ''{{'' (c # cs)
      then (case lazy_group [] (drop 2 (c # cs)) of
              Some g \<Rightarrow> Some g
            | None \<Rightarrow> re_search_ref cs)
      else re_search_ref cs)"

section \<open>Static configuration (utils/config\_loader.py)\<close>

text \<open>
  \<open>yaml_config\<close> is \<^verbatim>\<open>ConfigLoader.config\<close>, whatever the YAML file held.
  \<^verbatim>\<open>get_yaml_config\<close> walks the dotted key with \<^verbatim>\<open>value[k]\<close> and returns the
  default on KeyError or TypeError, that is when a key is missing or the value is not
  a dict.
\<close>

fun yaml_walk :: "pyval \<Rightarrow> string list \<Rightarrow> pyval option" where
  "yaml_walk v [] = Some v"
| "yaml_walk (PDict d) (k # ks) =
     (case dict_get d k of None \<Rightarrow> None | Some v \<Rightarrow> yaml_walk v ks)"
| "yaml_walk v (k # ks) = None"

definition get_yaml_config :: "pyval \<Rightarrow> string \<Rightarrow> pyval \<Rightarrow> pyval" where
  "get_yaml_config yaml_config key dflt =
     (case yaml_walk yaml_config (py_split key ''.'') of
        Some v \<Rightarrow> v
      | None \<Rightarrow> dflt)"

definition get_icp_config :: "pyval \<Rightarrow> pyval" where
  "get_icp_config yaml_config =
     get_yaml_config yaml_config ''icp''
       (PDict [(''industry'', PList [PStr ''SaaS'', PStr ''Technology'']),
               (''location'', PList [PStr ''USA'']),
               (''employee_count'', PDict [(''min'', PInt 100), (''max'', PInt 1000)]),
               (''revenue'', PDict [(''min'', PInt 20000000), (''max'', PInt 200000000)])])"

definition get_scoring_config :: "pyval \<Rightarrow> pyval" where
  "get_scoring_config yaml_config =
     get_yaml_config yaml_config ''scoring''
       (PDict [(''weights'',
                  PDict [(''industry_match'', PFloat (3 / 10)),
                         (''company_size'', PFloat (2 / 10)),
                         (''revenue_range'', PFloat (2 / 10)),
                         (''growth_signals'', PFloat (3 / 10))]),
               (''min_score_threshold'', PFloat (6 / 10))])"

section \<open>Reference resolution (langgraph\_builder.py)\<close>

text \<open>
  The run state is the \<^verbatim>\<open>WorkflowState\<close> dict. The functions that receive it
  return it next to their result, so that what they do to it is part of the model.
\<close>

text \<open>
  The loop of \<^verbatim>\<open>_get_nested_value\<close> over the path segments: on a dict,
  \<^verbatim>\<open>output\<close> is skipped and any other segment is looked up with \<^verbatim>\<open>.get\<close>;
  a missing key, a stored None, or a value that is not a dict ends the walk with None.
\<close>

fun navigate :: "pyval \<Rightarrow> string list \<Rightarrow> pyval" where
  "navigate v [] = v"
| "navigate (PDict d) (part # rest) =
     (if part = ''output'' then navigate (PDict d) rest
      else (case dict_get d part of
              None \<Rightarrow> PNone
            | Some PNone \<Rightarrow> PNone
            | Some v \<Rightarrow> navigate v rest))"
| "navigate v (part # rest) = PNone"

definition get_nested_value :: "pyval \<Rightarrow> string \<Rightarrow> pydict \<Rightarrow> (pyexn + pyval) \<times> pydict" where
  "get_nested_value yaml_config path state =
     (case py_split path ''.'' of
        [] \<Rightarrow> (Inl (Exn ''IndexError'' ''list index out of range''), state)
      | p0 # ps \<Rightarrow>
          if p0 = ''config'' then
            (case ps of
               [] \<Rightarrow> (Inl (Exn ''IndexError'' ''list index out of range''), state)
             | p1 # _ \<Rightarrow>
                 if p1 = ''scoring'' then (Inr (get_scoring_config yaml_config), state)
                 else if p1 = ''icp'' then (Inr (get_icp_config yaml_config), state)
                 else (Inr PNone, state))
          else (Inr (navigate (PDict state) (p0 # ps)), state))"

text \<open>
  \<^verbatim>\<open>_resolve_input_references\<close>: \<open>resolve_items\<close> is the loop over
  \<^verbatim>\<open>inputs.items()\<close> with the dict \<^verbatim>\<open>resolved\<close> built so far, \<open>resolve_list\<close>
  the list comprehension over a list value. An exception stops both.
\<close>

function resolve_items ::
    "pyval \<Rightarrow> (string \<times> pyval) list \<Rightarrow> pydict \<Rightarrow> pydict \<Rightarrow> (pyexn + pydict) \<times> pydict"
  and resolve_list ::
    "pyval \<Rightarrow> pyval list \<Rightarrow> pydict \<Rightarrow> (pyexn + pyval list) \<times> pydict" where
  "resolve_items cfg [] resolved state = (Inr resolved, state)"
| "resolve_items cfg ((key, PStr s) # rest) resolved state =
     (if contains s ''{{'' \<and> contains s ''}}'' then
        (case re_search_ref s of
           Some ref_path \<Rightarrow>
             (case get_nested_value cfg ref_path state of
                (Inl e, state1) \<Rightarrow> (Inl e, state1)
              | (Inr resolved_value, state1) \<Rightarrow>
                  resolve_items cfg rest (dict_set resolved key resolved_value) state1)
         | None \<Rightarrow> resolve_items cfg rest (dict_set resolved key (PStr s)) state)
      else resolve_items cfg rest (dict_set resolved key (PStr s)) state)"
| "resolve_items cfg ((key, PDict d) # rest) resolved state =
     (case resolve_items cfg d [] state of
        (Inl e, state1) \<Rightarrow> (Inl e, state1)
      | (Inr r, state1) \<Rightarrow> resolve_items cfg rest (dict_set resolved key (PDict r)) state1)"
| "resolve_items cfg ((key, PList xs) # rest) resolved state =
     (case resolve_list cfg xs state of
        (Inl e, state1) \<Rightarrow> (Inl e, state1)
      | (Inr ys, state1) \<Rightarrow> resolve_items cfg rest (dict_set resolved key (PList ys)) state1)"
| "resolve_items cfg ((key, PNone) # rest) resolved state =
     resolve_items cfg rest (dict_set resolved key PNone) state"
| "resolve_items cfg ((key, PBool b) # rest) resolved state =
     resolve_items cfg rest (dict_set resolved key (PBool b)) state"
| "resolve_items cfg ((key, PInt i) # rest) resolved state =
     resolve_items cfg rest (dict_set resolved key (PInt i)) state"
| "resolve_items cfg ((key, PFloat x) # rest) resolved state =
     resolve_items cfg rest (dict_set resolved key (PFloat x)) state"
| "resolve_list cfg [] state = (Inr [], state)"
| "resolve_list cfg (PDict d # items) state =
     (case resolve_items cfg d [] state of
        (Inl e, state1) \<Rightarrow> (Inl e, state1)
      | (Inr r, state1) \<Rightarrow>
          (case resolve_list cfg items state1 of
             (Inl e, state2) \<Rightarrow> (Inl e, state2)
           | (Inr ys, state2) \<Rightarrow> (Inr (PDict r # ys), state2)))"
| "resolve_list cfg (PNone # items) state =
     (case resolve_list cfg items state of
        (Inl e, state1) \<Rightarrow> (Inl e, state1)
      | (Inr ys, state1) \<Rightarrow> (Inr (PNone # ys), state1))"
| "resolve_list cfg (PBool b # items) state =
     (case resolve_list cfg items state of
        (Inl e, state1) \<Rightarrow> (Inl e, state1)
      | (Inr ys, state1) \<Rightarrow> (Inr (PBool b # ys), state1))"
| "resolve_list cfg (PInt i # items) state =
     (case resolve_list cfg items state of
        (Inl e, state1) \<Rightarrow> (Inl e, state1)
      | (Inr ys, state1) \<Rightarrow> (Inr (PInt i # ys), state1))"
| "resolve_list cfg (PFloat x # items) state =
     (case resolve_list cfg items state of
        (Inl e, state1) \<Rightarrow> (Inl e, state1)
      | (Inr ys, state1) \<Rightarrow> (Inr (PFloat x # ys), state1))"
| "resolve_list cfg (PStr s # items) state =
     (case resolve_list cfg items state of
        (Inl e, state1) \<Rightarrow> (Inl e, state1)
      | (Inr ys, state1) \<Rightarrow> (Inr (PStr s # ys), state1))"
| "resolve_list cfg (PList xs # items) state =
     (case resolve_list cfg items state of
        (Inl e, state1) \<Rightarrow> (Inl e, state1)
      | (Inr ys, state1) \<Rightarrow> (Inr (PList xs # ys), state1))"
  by pat_completeness auto
termination
  by (relation "measure (\<lambda>x. case x of
          Inl (cfg, items, resolved, state) \<Rightarrow> size_list (size_prod (\<lambda>_. 0) size) items
        | Inr (cfg, xs, state) \<Rightarrow> size_list size xs)") auto

definition resolve_input_references ::
  "pyval \<Rightarrow> pydict \<Rightarrow> pydict \<Rightarrow> (pyexn + pydict) \<times> pydict" where
  "resolve_input_references cfg inputs state = resolve_items cfg inputs [] state"

section \<open>Node execution (langgraph\_builder.py)\<close>

definition attribute_error :: "pyval \<Rightarrow> string \<Rightarrow> pyexn" where
  "attribute_error v attr =
     Exn ''AttributeError''
       ([CHR 0x27] @ type_name v @ [CHR 0x27] @ '' object has no attribute ''
        @ [CHR 0x27] @ attr @ [CHR 0x27])"

definition error_record :: "string \<Rightarrow> pyval \<Rightarrow> string \<Rightarrow> pyval" where
  "error_record sid error_msg now =
     PDict [(''step'', PStr sid), (''error'', error_msg), (''timestamp'', PStr now)]"

text \<open>
  \<^verbatim>\<open>state["errors"].append({...})\<close>: KeyError when the state has no such key,
  AttributeError when what is stored there is not a list.
\<close>

definition append_error :: "pydict \<Rightarrow> string \<Rightarrow> pyval \<Rightarrow> string \<Rightarrow> pyexn + pydict" where
  "append_error state sid error_msg now =
     (case dict_get state ''errors'' of
        None \<Rightarrow> Inl (Exn ''KeyError'' ([CHR 0x27] @ ''errors'' @ [CHR 0x27]))
      | Some (PList es) \<Rightarrow>
          Inr (dict_set state ''errors'' (PList (es @ [error_record sid error_msg now])))
      | Some v \<Rightarrow> Inl (attribute_error v ''append''))"

text \<open>
  \<^verbatim>\<open>not output.get('_metadata', {}).get('success', True)\<close>: both receivers must be
  dicts, anything else has no \<^verbatim>\<open>get\<close>.
\<close>

definition reports_failure :: "pyval \<Rightarrow> pyexn + bool" where
  "reports_failure output =
     (case output of
        PDict od \<Rightarrow>
          (case (case dict_get od ''_metadata'' of None \<Rightarrow> PDict [] | Some m \<Rightarrow> m) of
             PDict md \<Rightarrow>
               Inr (\<not> truthy (case dict_get md ''success'' of None \<Rightarrow> PBool True | Some b \<Rightarrow> b))
           | m \<Rightarrow> Inl (attribute_error m ''get''))
      | v \<Rightarrow> Inl (attribute_error v ''get''))"

definition reported_error :: "pyval \<Rightarrow> pyval" where
  "reported_error output =
     (case output of
        PDict od \<Rightarrow> (case dict_get od ''error'' of None \<Rightarrow> PStr ''Unknown error'' | Some m \<Rightarrow> m)
      | _ \<Rightarrow> PNone)"

text \<open>The three assignments that store a step's output in the state.\<close>

definition store_output :: "pydict \<Rightarrow> string \<Rightarrow> pyval \<Rightarrow> pydict" where
  "store_output state sid output =
     dict_set (dict_set (dict_set state sid output) ''current_step'' (PStr sid))
       ''completed_steps'' (PList [PStr sid])"

text \<open>
  An agent is seen through its \<^verbatim>\<open>execute\<close>: a function of the input that raises or
  returns a value. \<open>node_try\<close> is the body of the \<^verbatim>\<open>try\<close> block of
  \<^verbatim>\<open>node_function\<close>; \<open>sid\<close> and \<open>aname\<close> are the \<^verbatim>\<open>step_id\<close> and
  \<^verbatim>\<open>agent_name\<close> the closure was made for, \<open>now\<close> the timestamp read.
\<close>

type_synonym agent_execute = "pydict \<Rightarrow> pyexn + pyval"

definition node_try :: "agent_execute \<Rightarrow> string \<Rightarrow> pydict \<Rightarrow> string \<Rightarrow> pydict \<Rightarrow> pyexn + pydict" where
  "node_try agent_exec sid agent_input now state =
     (case agent_exec agent_input of
        Inl e \<Rightarrow> Inl e
      | Inr output \<Rightarrow>
          (case reports_failure output of
             Inl e \<Rightarrow> Inl e
           | Inr failed \<Rightarrow>
               if failed then
                 (case append_error state sid (reported_error output) now of
                    Inl e \<Rightarrow> Inl e
                  | Inr state1 \<Rightarrow> Inr (store_output state1 sid output))
               else Inr (store_output state sid output)))"

text \<open>
  \<^verbatim>\<open>node_function\<close>: \<open>Inr\<close> is the state it returns, \<open>Inl\<close> an exception that
  leaves it (on every such path the state has not been written to).
\<close>

definition node_function ::
  "(string \<Rightarrow> agent_execute option) \<Rightarrow> pyval \<Rightarrow> string \<Rightarrow> string \<Rightarrow> pydict \<Rightarrow> string \<Rightarrow> pydict
     \<Rightarrow> pyexn + pydict" where
  "node_function agents cfg sid aname inputs now state =
     (case agents aname of
        None \<Rightarrow> append_error state sid (PStr (''Agent '' @ aname @ '' not found'')) now
      | Some agent_exec \<Rightarrow>
          (case resolve_input_references cfg inputs state of
             (Inl e, state1) \<Rightarrow> Inl e
           | (Inr agent_input, state1) \<Rightarrow>
               (case node_try agent_exec sid agent_input now state1 of
                  Inr state2 \<Rightarrow> Inr state2
                | Inl e \<Rightarrow>
                    append_error state1 sid
                      (PStr (''Exception during execution: '' @ exn_msg e)) now)))"

text \<open>
  The registry \<^verbatim>\<open>self.agents\<close> holds \<^verbatim>\<open>BaseAgent\<close> instances; this is the
  \<^verbatim>\<open>execute\<close> of one of them as a node calls it.
\<close>

definition bound_execute :: "'w agent_class \<Rightarrow> clock \<Rightarrow> 'w base_agent \<Rightarrow> agent_execute" where
  "bound_execute cls clk self =
     (\<lambda>agent_input. map_sum id PDict (fst (execute cls clk agent_input self)))"

section \<open>Workflow validation (utils/json\_validator.py)\<close>

record workflow_step =
  step_id :: string
  agent :: string
  inputs :: pydict
  instructions :: string
  tools :: "(string \<times> pydict) list"
  output_schema :: pydict

record workflow_definition =
  workflow_name :: string
  description :: string
  steps :: "workflow_step list"

text \<open>
  \<^verbatim>\<open>str.isalnum\<close>: not empty, every character a letter or a digit. A character of
  the model is a code point below 256; the letters and digits among these are the
  ASCII ones and, in the upper half, the code points 170, 178, 179, 181, 185, 186,
  188 to 190, 192 to 214, 216 to 246 and 248 to 255. Text with a code point from 256
  on is outside the model.
\<close>

definition is_alnum_char :: "char \<Rightarrow> bool" where
  "is_alnum_char c =
     (let n = (of_char c :: nat)
      in (48 \<le> n \<and> n \<le> 57) \<or> (65 \<le> n \<and> n \<le> 90) \<or> (97 \<le> n \<and> n \<le> 122)
         \<or> n = 170 \<or> n = 178 \<or> n = 179 \<or> n = 181 \<or> n = 185 \<or> n = 186
         \<or> (188 \<le> n \<and> n \<le> 190) \<or> (192 \<le> n \<and> n \<le> 214)
         \<or> (216 \<le> n \<and> n \<le> 246) \<or> (248 \<le> n \<and> n \<le> 255))"

definition isalnum :: "string \<Rightarrow> bool" where
  "isalnum s = (s \<noteq> [] \<and> list_all is_alnum_char s)"

definition validate_id :: "string \<Rightarrow> pyexn + string" where
  "validate_id v =
     (if \<not> isalnum (filter (\<lambda>c. c \<noteq> CHR ''_'') v)
      then Inl (Exn ''ValueError'' (''Step ID must be alphanumeric with underscores: '' @ v))
      else Inr v)"

text \<open>An agent name outside the predefined list is logged as a warning and accepted.\<close>

definition validate_agent :: "string \<Rightarrow> pyexn + string" where
  "validate_agent v = Inr v"

text \<open>The \<^verbatim>\<open>repr\<close> of a list of identifier strings, as an f-string prints it.\<close>

fun join :: "string \<Rightarrow> string list \<Rightarrow> string" where
  "join sep [] = []"
| "join sep [x] = x"
| "join sep (x # y # ys) = x @ sep @ join sep (y # ys)"

definition repr_str :: "string \<Rightarrow> string" where
  "repr_str s = [CHR 0x27] @ s @ [CHR 0x27]"

definition repr_list :: "string list \<Rightarrow> string" where
  "repr_list xs = ''['' @ join '', '' (map repr_str xs) @ '']''"

definition validate_steps :: "workflow_step list \<Rightarrow> pyexn + workflow_step list" where
  "validate_steps v =
     (if v = [] then Inl (Exn ''ValueError'' ''Workflow must have at least one step'')
      else
        (let step_ids = map step_id v in
         if length step_ids \<noteq> length (remdups step_ids) then
           (let duplicates = filter (\<lambda>sid. count_list step_ids sid > 1) step_ids
            in Inl (Exn ''ValueError'' (''Duplicate step IDs found: '' @ repr_list duplicates)))
         else Inr v))"

text \<open>
  \<^verbatim>\<open>WorkflowDefinition(**data)\<close>, where \<open>data\<close> is the JSON object loaded from
  the file. What pydantic does with the declarations of the source is part of the
  model. A field is checked against its declared type: a missing field, or a value
  that is not a string, a dict or a list where one is declared, is an error, and
  keys that are not declared are ignored. The validator of a field (here
  \<^verbatim>\<open>validate_id\<close> and \<^verbatim>\<open>validate_agent\<close>) runs when the value has the declared
  type, and the ValueError it raises is reported as "Value error," followed by its
  message. The errors of all fields are collected. \<open>step_errors\<close> are the errors
  of one element of \<^verbatim>\<open>steps\<close>.
\<close>

definition str_field :: "pydict \<Rightarrow> string \<Rightarrow> string list" where
  "str_field d k =
     (case dict_get d k of
        None \<Rightarrow> [''Field required'']
      | Some (PStr _) \<Rightarrow> []
      | Some _ \<Rightarrow> [''Input should be a valid string''])"

definition dict_field :: "pydict \<Rightarrow> string \<Rightarrow> string list" where
  "dict_field d k =
     (case dict_get d k of
        None \<Rightarrow> [''Field required'']
      | Some (PDict _) \<Rightarrow> []
      | Some _ \<Rightarrow> [''Input should be a valid dictionary''])"

definition validated_str_field ::
  "(string \<Rightarrow> pyexn + string) \<Rightarrow> pydict \<Rightarrow> string \<Rightarrow> string list" where
  "validated_str_field validator d k =
     (case dict_get d k of
        None \<Rightarrow> [''Field required'']
      | Some (PStr v) \<Rightarrow>
          (case validator v of Inl e \<Rightarrow> [''Value error, '' @ exn_msg e] | Inr _ \<Rightarrow> [])
      | Some _ \<Rightarrow> [''Input should be a valid string''])"

definition tool_errors :: "pyval \<Rightarrow> string list" where
  "tool_errors item =
     (case item of
        PDict t \<Rightarrow> str_field t ''name'' @ dict_field t ''config''
      | _ \<Rightarrow> [''Input should be a valid dictionary or instance of ToolConfig''])"

definition tools_field :: "pydict \<Rightarrow> string list" where
  "tools_field d =
     (case dict_get d ''tools'' of
        None \<Rightarrow> []
      | Some (PList items) \<Rightarrow> concat (map tool_errors items)
      | Some _ \<Rightarrow> [''Input should be a valid list''])"

definition step_errors :: "pyval \<Rightarrow> string list" where
  "step_errors item =
     (case item of
        PDict d \<Rightarrow>
          validated_str_field validate_id d ''id''
          @ validated_str_field validate_agent d ''agent''
          @ dict_field d ''inputs''
          @ str_field d ''instructions''
          @ tools_field d
          @ dict_field d ''output_schema''
      | _ \<Rightarrow> [''Input should be a valid dictionary or instance of WorkflowStep''])"

text \<open>
  The objects pydantic builds from values that have passed these checks. The fallback
  branches are not reached then.
\<close>

definition get_str :: "pydict \<Rightarrow> string \<Rightarrow> string" where
  "get_str d k = (case dict_get d k of Some (PStr s) \<Rightarrow> s | _ \<Rightarrow> [])"

definition get_dict :: "pydict \<Rightarrow> string \<Rightarrow> pydict" where
  "get_dict d k = (case dict_get d k of Some (PDict x) \<Rightarrow> x | _ \<Rightarrow> [])"

definition to_tool :: "pyval \<Rightarrow> string \<times> pydict" where
  "to_tool item = (case item of PDict t \<Rightarrow> (get_str t ''name'', get_dict t ''config'') | _ \<Rightarrow> ([], []))"

definition to_step :: "pyval \<Rightarrow> workflow_step" where
  "to_step item =
     (let d = (case item of PDict x \<Rightarrow> x | _ \<Rightarrow> []) in
      \<lparr>step_id = get_str d ''id'',
       agent = get_str d ''agent'',
       inputs = get_dict d ''inputs'',
       instructions = get_str d ''instructions'',
       tools = (case dict_get d ''tools'' of Some (PList items) \<Rightarrow> map to_tool items | _ \<Rightarrow> []),
       output_schema = get_dict d ''output_schema''\<rparr>)"

text \<open>
  The field \<^verbatim>\<open>steps\<close>: a list whose elements are checked one by one. Its validator
  \<^verbatim>\<open>validate_steps\<close> is an after-validator: it receives the list of steps built,
  and so runs only when no element has an error.
\<close>

definition steps_field :: "pydict \<Rightarrow> string list + workflow_step list" where
  "steps_field data =
     (case dict_get data ''steps'' of
        None \<Rightarrow> Inl [''Field required'']
      | Some (PList items) \<Rightarrow>
          (let errs = concat (map step_errors items) in
           if errs \<noteq> [] then Inl errs
           else (case validate_steps (map to_step items) of
                   Inl e \<Rightarrow> Inl [''Value error, '' @ exn_msg e]
                 | Inr v \<Rightarrow> Inr v))
      | Some _ \<Rightarrow> Inl [''Input should be a valid list''])"

text \<open>
  \<^verbatim>\<open>WorkflowValidator.validate\<close> on the loaded object: \<open>Inl\<close> is the
  ValidationError it logs and raises again, with the messages of its errors.
\<close>

definition validate :: "pydict \<Rightarrow> string list + workflow_definition" where
  "validate data =
     (let errs = str_field data ''workflow_name'' @ str_field data ''description'' in
      case steps_field data of
        Inl step_errs \<Rightarrow> Inl (errs @ step_errs)
      | Inr v \<Rightarrow>
          if errs \<noteq> [] then Inl errs
          else Inr \<lparr>workflow_name = get_str data ''workflow_name'',
                    description = get_str data ''description'',
                    steps = v\<rparr>)"

text \<open>
  \<^verbatim>\<open>validate_dependencies\<close>. \<open>check_inputs\<close> is the inner loop over one step's
  \<^verbatim>\<open>inputs.items()\<close> and yields the first referenced id that is neither
  \<^verbatim>\<open>config\<close> nor a step id; \<open>check_steps\<close> is the outer loop. The function
  returns its boolean together with the line it logs.
\<close>

fun check_inputs :: "string list \<Rightarrow> pydict \<Rightarrow> pyexn + string option" where
  "check_inputs step_ids [] = Inr None"
| "check_inputs step_ids ((key, PStr s) # rest) =
     (if contains s ''{{'' \<and> contains s ''}}'' then
        (case py_split s ''{{'' of
           _ # after # _ \<Rightarrow>
             (case py_split after ''.'' of
                ref_step_id # _ \<Rightarrow>
                  if ref_step_id \<noteq> ''config'' \<and> ref_step_id \<notin> set step_ids
                  then Inr (Some ref_step_id)
                  else check_inputs step_ids rest
              | [] \<Rightarrow> Inl (Exn ''IndexError'' ''list index out of range''))
         | _ \<Rightarrow> Inl (Exn ''IndexError'' ''list index out of range''))
      else check_inputs step_ids rest)"
| "check_inputs step_ids ((key, v) # rest) = check_inputs step_ids rest"

fun check_steps :: "string list \<Rightarrow> workflow_step list \<Rightarrow> pyexn + (string \<times> string) option" where
  "check_steps step_ids [] = Inr None"
| "check_steps step_ids (step # rest) =
     (case check_inputs step_ids (inputs step) of
        Inl e \<Rightarrow> Inl e
      | Inr (Some ref_step_id) \<Rightarrow> Inr (Some (step_id step, ref_step_id))
      | Inr None \<Rightarrow> check_steps step_ids rest)"

definition validate_dependencies :: "workflow_definition \<Rightarrow> pyexn + bool \<times> string" where
  "validate_dependencies workflow =
     (case check_steps (map step_id (steps workflow)) (steps workflow) of
        Inl e \<Rightarrow> Inl e
      | Inr (Some (sid, ref_step_id)) \<Rightarrow>
          Inr (False, ''Step '' @ sid @ '' references non-existent step: '' @ ref_step_id)
      | Inr None \<Rightarrow> Inr (True, '' All step dependencies validated''))"



text \<open>
  \<^verbatim>\<open>validate_workflow_file\<close>, given what loading the file produced (an exception,
  or the JSON object): validate, call \<^verbatim>\<open>validate_dependencies\<close>, return the
  definition.
\<close>

datatype workflow_error =
    Load_failed pyexn
  | Validation_failed "string list"
  | Dependency_check_raised pyexn

definition validate_workflow_file :: "pyexn + pydict \<Rightarrow> workflow_error + workflow_definition" where
  "validate_workflow_file loaded =
     (case loaded of
        Inl e \<Rightarrow> Inl (Load_failed e)
      | Inr data \<Rightarrow>
          (case validate data of
             Inl errs \<Rightarrow> Inl (Validation_failed errs)
           | Inr workflow \<Rightarrow>
               (case validate_dependencies workflow of
                  Inl e \<Rightarrow> Inl (Dependency_check_raised e)
                | Inr _ \<Rightarrow> Inr workflow)))"

section \<open>Notions of the specification\<close>

text \<open>
  What the specification calls a path whose segments exist in the nested structure:
  starting from a value, each segment is a key of the dict reached so far.
  \<open>nested_lookup\<close> is None as soon as a segment does not exist.
\<close>

fun nested_lookup :: "pyval \<Rightarrow> string list \<Rightarrow> pyval option" where
  "nested_lookup v [] = Some v"
| "nested_lookup (PDict d) (k # ks) =
     (case dict_get d k of None \<Rightarrow> None | Some v \<Rightarrow> nested_lookup v ks)"
| "nested_lookup v (k # ks) = None"

text \<open>
  A top-level input value that is one reference with a dotted path, written
  \<^verbatim>\<open>{{root.rest}}\<close>: the opening marker, a path without braces or line breaks
  that has at least one dot, the closing marker. \<open>dotted_root\<close> is its root
  segment, the text before the first dot.
\<close>

definition dotted_root :: "string \<Rightarrow> string option" where
  "dotted_root s =
     (if prefix ''{{'' s \<and> suffix ''}}'' (drop 2 s) then
        (let body = take (length s - 4) (drop 2 s);
             root = takeWhile (\<lambda>c. c \<noteq> CHR ''.'') body
         in if list_all (\<lambda>c. c \<noteq> CHR ''{'' \<and> c \<noteq> CHR ''}'' \<and> c \<noteq> CHR 0x0A) body
               \<and> length root < length body
            then Some root else None)
      else None)"


text \<open>
  The step ids of a loaded document, and the documents in which every element of
  \<^verbatim>\<open>steps\<close> passes the checks of its own fields.
\<close>

definition document_step_ids :: "pydict \<Rightarrow> string list" where
  "document_step_ids data =
     (case dict_get data ''steps'' of
        Some (PList items) \<Rightarrow>
          concat (map (\<lambda>item. case item of
                         PDict d \<Rightarrow> (case dict_get d ''id'' of Some (PStr s) \<Rightarrow> [s] | _ \<Rightarrow> [])
                       | _ \<Rightarrow> []) items)
      | _ \<Rightarrow> [])"

definition steps_pass_field_checks :: "pydict \<Rightarrow> bool" where
  "steps_pass_field_checks data =
     (case dict_get data ''steps'' of
        Some (PList items) \<Rightarrow> list_all (\<lambda>item. step_errors item = []) items
      | _ \<Rightarrow> False)"

section \<open>Concrete instances\<close>

text \<open>Small agents, clocks, states and documents on which the results below are evaluated.\<close>

definition demo_clock :: clock where
  "demo_clock = \<lparr>t_start = 10, t_end = 12, now_iso = ''2025-01-01T00:00:00''\<rparr>"

definition demo_agent :: "unit base_agent" where
  "demo_agent = \<lparr>agent_id = ''graph_scoring'', agent_name = ''ScoringAgent'',
                  execution_count = 0, total_execution_time = 0,
                  last_execution_time = None, self_state = ()\<rparr>"

definition raising_class :: "unit agent_class" where
  "raising_class =
     \<lparr>validate_input = (\<lambda>inp w. (Inr True, w)),
      execute_core = (\<lambda>inp w. (Inl (Exn ''RuntimeError'' ''boom''), w))\<rparr>"

definition rejecting_class :: "unit agent_class" where
  "rejecting_class =
     \<lparr>validate_input = (\<lambda>inp w. (Inr False, w)),
      execute_core = (\<lambda>inp w. (Inr (PDict [(''leads'', PList [])]), w))\<rparr>"

definition accepting_class :: "unit agent_class" where
  "accepting_class =
     \<lparr>validate_input = (\<lambda>inp w. (Inr True, w)),
      execute_core = (\<lambda>inp w. (Inr (PDict [(''leads'', PList [])]), w))\<rparr>"

definition test_state :: pydict where
  "test_state =
     [(''prospect_search'', PDict [(''leads'', PList [PDict [(''name'', PStr ''Test Lead 1'')]])]),
      (''errors'', PList []),
      (''completed_steps'', PList [])]"

definition demo_search_agent :: "unit base_agent" where
  "demo_search_agent = \<lparr>agent_id = ''graph_prospect_search'', agent_name = ''ProspectSearchAgent'',
                  execution_count = 0, total_execution_time = 0,
                  last_execution_time = None, self_state = ()\<rparr>"

definition demo_agents :: "string \<Rightarrow> agent_execute option" where
  "demo_agents name =
     (if name = ''ScoringAgent'' then Some (bound_execute rejecting_class demo_clock demo_agent)
      else if name = ''ProspectSearchAgent''
        then Some (bound_execute accepting_class demo_clock demo_search_agent)
      else None)"

definition empty_run :: pydict where
  "empty_run = [(''errors'', PList []), (''completed_steps'', PList [])]"

definition rejected_result :: pydict where
  "rejected_result =
     [(''error'', PStr ''Input validation failed for ScoringAgent''),
      (''error_type'', PStr ''ValueError''),
      (''_metadata'',
         PDict [(''agent_name'', PStr ''ScoringAgent''),
                (''agent_id'', PStr ''graph_scoring''),
                (''execution_time'', PFloat 2),
                (''timestamp'', PStr ''2025-01-01T00:00:00''),
                (''success'', PBool False),
                (''error_message'', PStr ''Input validation failed for ScoringAgent'')])]"

definition mk_step :: "string \<Rightarrow> string \<Rightarrow> pydict \<Rightarrow> workflow_step" where
  "mk_step sid aname ins =
     \<lparr>step_id = sid, agent = aname, inputs = ins, instructions = ''run'',
      tools = [], output_schema = []\<rparr>"

definition dangling_doc :: workflow_definition where
  "dangling_doc =
     \<lparr>workflow_name = ''demo'', description = ''d'',
      steps = [mk_step ''search'' ''ProspectSearchAgent'' [(''n'', PInt 3)],
               mk_step ''score'' ''ScoringAgent'' [(''leads'', PStr ''{{missing.output.leads}}'')]]\<rparr>"



definition nodot_doc :: workflow_definition where
  "nodot_doc =
     \<lparr>workflow_name = ''demo'', description = ''d'',
      steps = [mk_step ''search'' ''ProspectSearchAgent'' [(''n'', PInt 3)],
               mk_step ''score'' ''ScoringAgent'' [(''leads'', PStr ''{{search}}'')]]\<rparr>"

definition raw_step :: "string \<Rightarrow> string \<Rightarrow> pydict \<Rightarrow> pyval" where
  "raw_step sid aname ins =
     PDict [(''id'', PStr sid), (''agent'', PStr aname), (''inputs'', PDict ins),
            (''instructions'', PStr ''run''), (''output_schema'', PDict [])]"

definition raw_document :: "pyval list \<Rightarrow> pydict" where
  "raw_document items =
     [(''workflow_name'', PStr ''demo''), (''description'', PStr ''d''), (''steps'', PList items)]"

definition dangling_raw :: pydict where
  "dangling_raw =
     raw_document
       [raw_step ''search'' ''ProspectSearchAgent'' [(''n'', PInt 3)],
        raw_step ''score'' ''ScoringAgent'' [(''leads'', PStr ''{{missing.output.leads}}'')]]"

definition duplicate_raw :: pydict where
  "duplicate_raw =
     raw_document
       [raw_step ''zz'' ''ProspectSearchAgent'' [],
        raw_step ''zz'' ''ScoringAgent'' []]"

definition duplicate_malformed_raw :: pydict where
  "duplicate_malformed_raw =
     raw_document
       [raw_step ''zz'' ''ProspectSearchAgent'' [],
        raw_step ''zz'' ''ScoringAgent'' [],
        raw_step ''q-'' ''ScoringAgent'' []]"

definition bare_config_inputs :: pydict where
  "bare_config_inputs = [(''options'', PDict [(''weights'', PStr ''{{config}}'')])]"

definition bare_config_raw :: pydict where
  "bare_config_raw = raw_document [raw_step ''scoring'' ''ScoringAgent'' bare_config_inputs]"

definition bare_config_doc :: workflow_definition where
  "bare_config_doc =
     \<lparr>workflow_name = ''demo'', description = ''d'',
      steps = [mk_step ''scoring'' ''ScoringAgent'' bare_config_inputs]\<rparr>"

section \<open>The agent contract: results\<close>

lemma dict_get_dict_set_same: "dict_get (dict_set d k v) k = Some v"
  by (induction d) (auto simp: dict_get_def)

lemma dict_get_dict_set_other: "k' \<noteq> k \<Longrightarrow> dict_get (dict_set d k v) k' = dict_get d k'"
  by (induction d) (auto simp: dict_get_def)

lemma set_item_Inr: "set_item v k x = Inr out \<Longrightarrow> dict_get out k = Some x"
  by (cases v) (auto simp: dict_get_dict_set_same)

lemma execute_try_Inr_metadata:
  assumes "execute_try cls clk inp self = (Inr out, self')"
  shows "\<exists>md. dict_get out ''_metadata'' = Some (PDict md) \<and> dict_get md ''success'' = Some (PBool True)"
  using assms
  by (auto simp: execute_try_def Let_def dict_get_def[of "[_,_,_,_,_]"] split: prod.splits sum.splits if_splits dest!: set_item_Inr)

lemma execute_try_Inr_stats:
  assumes "execute_try cls clk inp self = (Inr out, self')"
  shows "execution_count self' = execution_count self + 1
       \<and> total_execution_time self' = total_execution_time self + (t_end clk - t_start clk)
       \<and> last_execution_time self' = Some (t_end clk - t_start clk)"
  using assms
  by (auto simp: execute_try_def Let_def split: prod.splits sum.splits if_splits)

lemma execute_try_Inl_stats:
  assumes "execute_try cls clk inp self = (Inl e, self')"
  shows "execution_count self' = execution_count self
       \<and> total_execution_time self' = total_execution_time self
       \<and> last_execution_time self' = last_execution_time self
       \<and> agent_name self' = agent_name self \<and> agent_id self' = agent_id self"
  using assms
  by (auto simp: execute_try_def Let_def split: prod.splits sum.splits if_splits)

lemma execute_Inl:
  assumes "execute_try cls clk inp self = (Inl e, self')"
  shows "execute cls clk inp self =
     (Inr [(''error'', PStr (exn_msg e)),
           (''error_type'', PStr (exn_type e)),
           (''_metadata'',
              PDict [(''agent_name'', PStr (agent_name self)),
                     (''agent_id'', PStr (agent_id self)),
                     (''execution_time'', PFloat (t_end clk - t_start clk)),
                     (''timestamp'', PStr (now_iso clk)),
                     (''success'', PBool False),
                     (''error_message'', PStr (exn_msg e))])], self')"
  using assms execute_try_Inl_stats[OF assms] by (simp add: execute_def Let_def)

lemma execute_Inr:
  assumes "execute_try cls clk inp self = (Inr out, self')"
  shows "execute cls clk inp self = (Inr out, self')"
  using assms by (simp add: execute_def)

lemma execute_try_core_raises:
  assumes "validate_input cls inp (self_state self) = (Inr True, w1)"
      and "execute_core cls inp w1 = (Inl e, w2)"
  shows "execute_try cls clk inp self = (Inl e, self\<lparr>self_state := w2\<rparr>)"
  using assms by (simp add: execute_try_def)

lemma execute_try_rejected:
  assumes "validate_input cls inp (self_state self) = (Inr False, w1)"
  shows "execute_try cls clk inp self =
     (Inl (Exn ''ValueError'' (''Input validation failed for '' @ agent_name self)),
      self\<lparr>self_state := w1\<rparr>)"
  using assms by (simp add: execute_try_def)

lemma execute_try_success:
  assumes "validate_input cls inp (self_state self) = (Inr True, w1)"
      and "execute_core cls inp w1 = (Inr (PDict d), w2)"
  shows "fst (execute_try cls clk inp self)
     = Inr (dict_set d ''_metadata''
              (PDict [(''agent_name'', PStr (agent_name self)),
                      (''agent_id'', PStr (agent_id self)),
                      (''execution_time'', PFloat (t_end clk - t_start clk)),
                      (''timestamp'', PStr (now_iso clk)),
                      (''success'', PBool True)]))"
  using assms by (simp add: execute_try_def Let_def)

lemma execute_try_Inr_success_path:
  assumes "execute_try cls clk inp self = (Inr out, self')"
  shows "\<exists>w1 d w2. validate_input cls inp (self_state self) = (Inr True, w1)
           \<and> execute_core cls inp w1 = (Inr (PDict d), w2)"
proof -
  obtain rv w1 where v: "validate_input cls inp (self_state self) = (rv, w1)"
    by (cases "validate_input cls inp (self_state self)")
  obtain rc w2 where c: "execute_core cls inp w1 = (rc, w2)"
    by (cases "execute_core cls inp w1")
  from assms v have rv: "rv = Inr True"
    by (cases rv) (auto simp: execute_try_def split: if_splits)
  from assms v c rv obtain res where rc: "rc = Inr res"
    by (cases rc) (auto simp: execute_try_def)
  from assms v c rv rc obtain d where "res = PDict d"
    by (cases res) (auto simp: execute_try_def Let_def)
  with v c rv rc show ?thesis by blast
qed

lemma execute_try_not_dict:
  assumes "validate_input cls inp (self_state self) = (Inr True, w1)"
      and "execute_core cls inp w1 = (Inr v, w2)"
      and "\<forall>d. v \<noteq> PDict d"
  shows "\<exists>e. fst (execute_try cls clk inp self) = Inl e \<and> exn_type e = ''TypeError''"
  using assms by (cases v) (auto simp: execute_try_def Let_def)

lemma execute_try_validation_raises:
  assumes "validate_input cls inp (self_state self) = (Inl e, w1)"
  shows "fst (execute_try cls clk inp self) = Inl e"
  using assms by (simp add: execute_try_def)

text \<open>
  Claim C1. For every agent class, clock, input and agent, \<^verbatim>\<open>execute\<close> returns a
  dict and raises nothing, and the dict has a \<^verbatim>\<open>_metadata\<close> dict. When validation
  passes and \<^verbatim>\<open>_execute\<close> returns a dict, the result is that dict with the
  metadata attached, and \<^verbatim>\<open>success\<close> is True. On every other path, which is an
  exception raised by \<^verbatim>\<open>_execute\<close> or by \<^verbatim>\<open>_validate_input\<close>, a validation
  that returns False, or a value from \<^verbatim>\<open>_execute\<close> that is not a dict, the result
  carries the fault's message as \<^verbatim>\<open>error\<close>, its class name as
  \<^verbatim>\<open>error_type\<close>, and \<^verbatim>\<open>success\<close> False. So \<^verbatim>\<open>success\<close> is True exactly
  on the first path and False exactly on the others.
\<close>

theorem execute_never_raises:
  "\<exists>out md. fst (execute cls clk inp self) = Inr out
     \<and> dict_get out ''_metadata'' = Some (PDict md)
     \<and> (\<forall>w1 d w2. validate_input cls inp (self_state self) = (Inr True, w1)
                    \<and> execute_core cls inp w1 = (Inr (PDict d), w2)
           \<longrightarrow> out = dict_set d ''_metadata'' (PDict md)
               \<and> dict_get md ''success'' = Some (PBool True))
     \<and> (\<forall>w1 e w2. validate_input cls inp (self_state self) = (Inr True, w1)
                    \<and> execute_core cls inp w1 = (Inl e, w2)
           \<longrightarrow> dict_get out ''error'' = Some (PStr (exn_msg e))
               \<and> dict_get out ''error_type'' = Some (PStr (exn_type e))
               \<and> dict_get md ''success'' = Some (PBool False))
     \<and> (\<forall>e w1. validate_input cls inp (self_state self) = (Inl e, w1)
           \<longrightarrow> dict_get out ''error'' = Some (PStr (exn_msg e))
               \<and> dict_get out ''error_type'' = Some (PStr (exn_type e))
               \<and> dict_get md ''success'' = Some (PBool False))
     \<and> (\<forall>w1. validate_input cls inp (self_state self) = (Inr False, w1)
           \<longrightarrow> dict_get out ''error''
                 = Some (PStr (''Input validation failed for '' @ agent_name self))
               \<and> dict_get out ''error_type'' = Some (PStr ''ValueError'')
               \<and> dict_get md ''success'' = Some (PBool False))
     \<and> (\<forall>w1 v w2. validate_input cls inp (self_state self) = (Inr True, w1)
                    \<and> execute_core cls inp w1 = (Inr v, w2) \<and> (\<forall>d. v \<noteq> PDict d)
           \<longrightarrow> dict_get out ''error_type'' = Some (PStr ''TypeError'')
               \<and> dict_get md ''success'' = Some (PBool False))
     \<and> (dict_get md ''success'' = Some (PBool True)
          \<longleftrightarrow> (\<exists>w1 d w2. validate_input cls inp (self_state self) = (Inr True, w1)
                         \<and> execute_core cls inp w1 = (Inr (PDict d), w2)))
     \<and> (dict_get md ''success'' = Some (PBool False)
          \<longleftrightarrow> \<not> (\<exists>w1 d w2. validate_input cls inp (self_state self) = (Inr True, w1)
                         \<and> execute_core cls inp w1 = (Inr (PDict d), w2)))"
proof (cases "execute_try cls clk inp self")
  case (Pair r self')
  show ?thesis
  proof (cases r)
    case (Inl e)
    with Pair have t: "execute_try cls clk inp self = (Inl e, self')" by simp
    let ?md = "[(''agent_name'', PStr (agent_name self)),
                (''agent_id'', PStr (agent_id self)),
                (''execution_time'', PFloat (t_end clk - t_start clk)),
                (''timestamp'', PStr (now_iso clk)),
                (''success'', PBool False),
                (''error_message'', PStr (exn_msg e))]"
    let ?out = "[(''error'', PStr (exn_msg e)), (''error_type'', PStr (exn_type e)),
                 (''_metadata'', PDict ?md)]"
    have out: "fst (execute cls clk inp self) = Inr ?out"
      using execute_Inl[OF t] by simp
    have md: "dict_get ?out ''_metadata'' = Some (PDict ?md)"
      by (simp add: dict_get_def)
    have err: "dict_get ?out ''error'' = Some (PStr (exn_msg e))"
              "dict_get ?out ''error_type'' = Some (PStr (exn_type e))"
              "dict_get ?md ''success'' = Some (PBool False)"
      by (simp_all add: dict_get_def)
    have nosucc: "\<not> (\<exists>w1 d w2. validate_input cls inp (self_state self) = (Inr True, w1)
                         \<and> execute_core cls inp w1 = (Inr (PDict d), w2))"
      using execute_try_success[of cls inp self _ _ _ clk] t by force
    have core: "\<forall>w1 e' w2. validate_input cls inp (self_state self) = (Inr True, w1)
                    \<and> execute_core cls inp w1 = (Inl e', w2) \<longrightarrow> e' = e"
      using execute_try_core_raises[of cls inp self _ _ _ clk] t by force
    have vraise: "\<forall>e' w1. validate_input cls inp (self_state self) = (Inl e', w1) \<longrightarrow> e' = e"
      using execute_try_validation_raises[of cls inp self _ _ clk] t by force
    have rej: "\<forall>w1. validate_input cls inp (self_state self) = (Inr False, w1)
                 \<longrightarrow> e = Exn ''ValueError'' (''Input validation failed for '' @ agent_name self)"
      using execute_try_rejected[of cls inp self _ clk] t by force
    have nd: "\<forall>w1 v w2. validate_input cls inp (self_state self) = (Inr True, w1)
                    \<and> execute_core cls inp w1 = (Inr v, w2) \<and> (\<forall>d. v \<noteq> PDict d)
                 \<longrightarrow> exn_type e = ''TypeError''"
      using execute_try_not_dict[of cls inp self _ _ _ clk] t by force
    have c1: "\<forall>w1 d w2. validate_input cls inp (self_state self) = (Inr True, w1)
                    \<and> execute_core cls inp w1 = (Inr (PDict d), w2)
           \<longrightarrow> ?out = dict_set d ''_metadata'' (PDict ?md)
               \<and> dict_get ?md ''success'' = Some (PBool True)"
      using nosucc by blast
    have c2: "\<forall>w1 e' w2. validate_input cls inp (self_state self) = (Inr True, w1)
                    \<and> execute_core cls inp w1 = (Inl e', w2)
           \<longrightarrow> dict_get ?out ''error'' = Some (PStr (exn_msg e'))
               \<and> dict_get ?out ''error_type'' = Some (PStr (exn_type e'))
               \<and> dict_get ?md ''success'' = Some (PBool False)"
      using core err by blast
    have c3: "\<forall>e' w1. validate_input cls inp (self_state self) = (Inl e', w1)
           \<longrightarrow> dict_get ?out ''error'' = Some (PStr (exn_msg e'))
               \<and> dict_get ?out ''error_type'' = Some (PStr (exn_type e'))
               \<and> dict_get ?md ''success'' = Some (PBool False)"
      using vraise err by blast
    have c4: "\<forall>w1. validate_input cls inp (self_state self) = (Inr False, w1)
           \<longrightarrow> dict_get ?out ''error''
                 = Some (PStr (''Input validation failed for '' @ agent_name self))
               \<and> dict_get ?out ''error_type'' = Some (PStr ''ValueError'')
               \<and> dict_get ?md ''success'' = Some (PBool False)"
    proof (intro allI impI)
      fix w1
      assume "validate_input cls inp (self_state self) = (Inr False, w1)"
      with rej have "e = Exn ''ValueError'' (''Input validation failed for '' @ agent_name self)"
        by blast
      then show "dict_get ?out ''error''
                 = Some (PStr (''Input validation failed for '' @ agent_name self))
               \<and> dict_get ?out ''error_type'' = Some (PStr ''ValueError'')
               \<and> dict_get ?md ''success'' = Some (PBool False)"
        by (simp add: dict_get_def)
    qed
    have c5: "\<forall>w1 v w2. validate_input cls inp (self_state self) = (Inr True, w1)
                    \<and> execute_core cls inp w1 = (Inr v, w2) \<and> (\<forall>d. v \<noteq> PDict d)
           \<longrightarrow> dict_get ?out ''error_type'' = Some (PStr ''TypeError'')
               \<and> dict_get ?md ''success'' = Some (PBool False)"
    proof (intro allI impI)
      fix w1 v w2
      assume "validate_input cls inp (self_state self) = (Inr True, w1)
                    \<and> execute_core cls inp w1 = (Inr v, w2) \<and> (\<forall>d. v \<noteq> PDict d)"
      with nd have "exn_type e = ''TypeError''" by blast
      then show "dict_get ?out ''error_type'' = Some (PStr ''TypeError'')
               \<and> dict_get ?md ''success'' = Some (PBool False)"
        by (simp add: dict_get_def)
    qed
    have c6: "dict_get ?md ''success'' = Some (PBool True)
          \<longleftrightarrow> (\<exists>w1 d w2. validate_input cls inp (self_state self) = (Inr True, w1)
                         \<and> execute_core cls inp w1 = (Inr (PDict d), w2))"
      using nosucc by (simp add: dict_get_def)
    have c7: "dict_get ?md ''success'' = Some (PBool False)
          \<longleftrightarrow> \<not> (\<exists>w1 d w2. validate_input cls inp (self_state self) = (Inr True, w1)
                         \<and> execute_core cls inp w1 = (Inr (PDict d), w2))"
      using nosucc err(3) by blast
    from out md c1 c2 c3 c4 c5 c6 c7 show ?thesis
      by (intro exI[of _ ?out] exI[of _ ?md] conjI)
  next
    case (Inr out)
    with Pair have t: "execute_try cls clk inp self = (Inr out, self')" by simp
    from execute_try_Inr_success_path[OF t] obtain w1 d w2 where
      v: "validate_input cls inp (self_state self) = (Inr True, w1)" and
      c: "execute_core cls inp w1 = (Inr (PDict d), w2)"
      by blast
    let ?md = "[(''agent_name'', PStr (agent_name self)),
                (''agent_id'', PStr (agent_id self)),
                (''execution_time'', PFloat (t_end clk - t_start clk)),
                (''timestamp'', PStr (now_iso clk)),
                (''success'', PBool True)]"
    have o: "out = dict_set d ''_metadata'' (PDict ?md)"
      using execute_try_success[OF v c, of clk] t by simp
    have out: "fst (execute cls clk inp self) = Inr out"
      using execute_Inr[OF t] by simp
    have md: "dict_get out ''_metadata'' = Some (PDict ?md)"
      by (simp add: o dict_get_dict_set_same)
    have s: "dict_get ?md ''success'' = Some (PBool True)"
      by (simp add: dict_get_def)
    have succ: "\<exists>w1 d w2. validate_input cls inp (self_state self) = (Inr True, w1)
                         \<and> execute_core cls inp w1 = (Inr (PDict d), w2)"
      using v c by blast
    have c1: "\<forall>w1' d' w2'. validate_input cls inp (self_state self) = (Inr True, w1')
                    \<and> execute_core cls inp w1' = (Inr (PDict d'), w2')
           \<longrightarrow> out = dict_set d' ''_metadata'' (PDict ?md)
               \<and> dict_get ?md ''success'' = Some (PBool True)"
      using v c o s by auto
    have c2: "\<forall>w1' e w2'. validate_input cls inp (self_state self) = (Inr True, w1')
                    \<and> execute_core cls inp w1' = (Inl e, w2')
           \<longrightarrow> dict_get out ''error'' = Some (PStr (exn_msg e))
               \<and> dict_get out ''error_type'' = Some (PStr (exn_type e))
               \<and> dict_get ?md ''success'' = Some (PBool False)"
      using v c by auto
    have c3: "\<forall>e w1'. validate_input cls inp (self_state self) = (Inl e, w1')
           \<longrightarrow> dict_get out ''error'' = Some (PStr (exn_msg e))
               \<and> dict_get out ''error_type'' = Some (PStr (exn_type e))
               \<and> dict_get ?md ''success'' = Some (PBool False)"
      using v by auto
    have c4: "\<forall>w1'. validate_input cls inp (self_state self) = (Inr False, w1')
           \<longrightarrow> dict_get out ''error''
                 = Some (PStr (''Input validation failed for '' @ agent_name self))
               \<and> dict_get out ''error_type'' = Some (PStr ''ValueError'')
               \<and> dict_get ?md ''success'' = Some (PBool False)"
      using v by auto
    have c5: "\<forall>w1' v' w2'. validate_input cls inp (self_state self) = (Inr True, w1')
                    \<and> execute_core cls inp w1' = (Inr v', w2') \<and> (\<forall>d. v' \<noteq> PDict d)
           \<longrightarrow> dict_get out ''error_type'' = Some (PStr ''TypeError'')
               \<and> dict_get ?md ''success'' = Some (PBool False)"
      using v c by auto
    have c6: "dict_get ?md ''success'' = Some (PBool True)
          \<longleftrightarrow> (\<exists>w1 d w2. validate_input cls inp (self_state self) = (Inr True, w1)
                         \<and> execute_core cls inp w1 = (Inr (PDict d), w2))"
      using succ s by blast
    have c7: "dict_get ?md ''success'' = Some (PBool False)
          \<longleftrightarrow> \<not> (\<exists>w1 d w2. validate_input cls inp (self_state self) = (Inr True, w1)
                         \<and> execute_core cls inp w1 = (Inr (PDict d), w2))"
      using succ by (simp add: dict_get_def)
    from out md c1 c2 c3 c4 c5 c6 c7 show ?thesis
      by (intro exI[of _ out] exI[of _ ?md] conjI)
  qed
qed

theorem execute_never_raises_witness:
  "(\<exists>out md. fst (execute raising_class demo_clock [] demo_agent) = Inr out
      \<and> dict_get out ''_metadata'' = Some (PDict md)
      \<and> dict_get out ''error'' = Some (PStr ''boom'')
      \<and> dict_get out ''error_type'' = Some (PStr ''RuntimeError'')
      \<and> dict_get md ''success'' = Some (PBool False))
   \<and> (\<exists>out md. fst (execute accepting_class demo_clock [] demo_agent) = Inr out
      \<and> dict_get out ''_metadata'' = Some (PDict md)
      \<and> dict_get out ''leads'' = Some (PList [])
      \<and> dict_get md ''success'' = Some (PBool True))"
proof (rule conjI)
  have v: "validate_input raising_class [] (self_state demo_agent) = (Inr True, ())"
    and c: "execute_core raising_class [] () = (Inl (Exn ''RuntimeError'' ''boom''), ())"
    by (simp_all add: raising_class_def)
  from execute_never_raises[of raising_class demo_clock "[]" demo_agent]
  obtain out md where
    o: "fst (execute raising_class demo_clock [] demo_agent) = Inr out"
       "dict_get out ''_metadata'' = Some (PDict md)"
    and f: "\<forall>w1 e w2. validate_input raising_class [] (self_state demo_agent) = (Inr True, w1)
                    \<and> execute_core raising_class [] w1 = (Inl e, w2)
           \<longrightarrow> dict_get out ''error'' = Some (PStr (exn_msg e))
               \<and> dict_get out ''error_type'' = Some (PStr (exn_type e))
               \<and> dict_get md ''success'' = Some (PBool False)"
    by blast
  from f v c have
    "dict_get out ''error'' = Some (PStr (exn_msg (Exn ''RuntimeError'' ''boom'')))
     \<and> dict_get out ''error_type'' = Some (PStr (exn_type (Exn ''RuntimeError'' ''boom'')))
     \<and> dict_get md ''success'' = Some (PBool False)"
    by blast
  with o show "\<exists>out md. fst (execute raising_class demo_clock [] demo_agent) = Inr out
      \<and> dict_get out ''_metadata'' = Some (PDict md)
      \<and> dict_get out ''error'' = Some (PStr ''boom'')
      \<and> dict_get out ''error_type'' = Some (PStr ''RuntimeError'')
      \<and> dict_get md ''success'' = Some (PBool False)"
    by auto
next
  have v: "validate_input accepting_class [] (self_state demo_agent) = (Inr True, ())"
    and c: "execute_core accepting_class [] () = (Inr (PDict [(''leads'', PList [])]), ())"
    by (simp_all add: accepting_class_def)
  from execute_never_raises[of accepting_class demo_clock "[]" demo_agent]
  obtain out md where
    o: "fst (execute accepting_class demo_clock [] demo_agent) = Inr out"
       "dict_get out ''_metadata'' = Some (PDict md)"
    and s: "\<forall>w1 d w2. validate_input accepting_class [] (self_state demo_agent) = (Inr True, w1)
                    \<and> execute_core accepting_class [] w1 = (Inr (PDict d), w2)
           \<longrightarrow> out = dict_set d ''_metadata'' (PDict md)
               \<and> dict_get md ''success'' = Some (PBool True)"
    by blast
  from s v c have
    "out = dict_set [(''leads'', PList [])] ''_metadata'' (PDict md)
       \<and> dict_get md ''success'' = Some (PBool True)"
    by blast
  then have "dict_get out ''leads'' = Some (PList []) \<and> dict_get md ''success'' = Some (PBool True)"
    by (simp add: dict_get_def)
  with o show "\<exists>out md. fst (execute accepting_class demo_clock [] demo_agent) = Inr out
      \<and> dict_get out ''_metadata'' = Some (PDict md)
      \<and> dict_get out ''leads'' = Some (PList [])
      \<and> dict_get md ''success'' = Some (PBool True)"
    by blast
qed

text \<open>
  Claim C6. When \<^verbatim>\<open>_validate_input\<close> returns False, \<^verbatim>\<open>execute\<close> returns a
  dict whose \<^verbatim>\<open>error\<close> is exactly "Input validation failed for" followed by the
  agent's name and whose metadata has \<^verbatim>\<open>success\<close> False. \<^verbatim>\<open>_execute\<close> is not
  invoked: the subclass state is the one validation left, and replacing
  \<^verbatim>\<open>_execute\<close> by any other function changes neither the result nor the agent.
\<close>

theorem validation_failure_result:
  assumes "validate_input cls inp (self_state self) = (Inr False, w1)"
  shows "\<exists>out. fst (execute cls clk inp self) = Inr out
     \<and> dict_get out ''error'' = Some (PStr (''Input validation failed for '' @ agent_name self))
     \<and> metadata_success out = Some (PBool False)
     \<and> self_state (snd (execute cls clk inp self)) = w1
     \<and> (\<forall>core. execute (cls\<lparr>execute_core := core\<rparr>) clk inp self = execute cls clk inp self)"
proof -
  have "\<And>core. execute (cls\<lparr>execute_core := core\<rparr>) clk inp self = execute cls clk inp self"
  proof -
    fix core
    have "validate_input (cls\<lparr>execute_core := core\<rparr>) inp (self_state self) = (Inr False, w1)"
      using assms by simp
    from execute_Inl[OF execute_try_rejected[OF this]] execute_Inl[OF execute_try_rejected[OF assms]]
    show "execute (cls\<lparr>execute_core := core\<rparr>) clk inp self = execute cls clk inp self"
      by simp
  qed
  with execute_Inl[OF execute_try_rejected[OF assms], of clk] show ?thesis
    by (simp add: dict_get_def metadata_success_def)
qed

theorem validation_failure_result_witness:
  "\<exists>out. fst (execute rejecting_class demo_clock [] demo_agent) = Inr out
     \<and> dict_get out ''error'' = Some (PStr ''Input validation failed for ScoringAgent'')
     \<and> metadata_success out = Some (PBool False)"
  using validation_failure_result[of rejecting_class "[]" demo_agent "()" demo_clock]
  by (auto simp: rejecting_class_def demo_agent_def)

text \<open>
  Claim C10. A call of \<^verbatim>\<open>execute\<close> whose result has \<^verbatim>\<open>success\<close> False
  leaves \<^verbatim>\<open>execution_count\<close>, \<^verbatim>\<open>total_execution_time\<close> and
  \<^verbatim>\<open>last_execution_time\<close> as they were; one whose result has \<^verbatim>\<open>success\<close>
  True adds one to the count. \<^verbatim>\<open>get_stats\<close> always returns (it never divides by
  zero), reports that count, and reports an average of 0 when the count is 0.
\<close>

theorem failed_execute_keeps_stats:
  "(\<forall>out. fst (execute cls clk inp self) = Inr out \<and> metadata_success out = Some (PBool False)
      \<longrightarrow> execution_count (snd (execute cls clk inp self)) = execution_count self
        \<and> total_execution_time (snd (execute cls clk inp self)) = total_execution_time self
        \<and> last_execution_time (snd (execute cls clk inp self)) = last_execution_time self)
   \<and> (\<forall>out. fst (execute cls clk inp self) = Inr out \<and> metadata_success out = Some (PBool True)
      \<longrightarrow> execution_count (snd (execute cls clk inp self)) = execution_count self + 1)
   \<and> (\<exists>d. get_stats self = Inr d
          \<and> dict_get d ''execution_count'' = Some (PInt (execution_count self))
          \<and> (execution_count self = 0
               \<longrightarrow> dict_get d ''average_execution_time'' = Some (PInt 0)))"
proof (cases "execute_try cls clk inp self")
  case (Pair r self')
  have stats: "\<exists>d. get_stats self = Inr d
          \<and> dict_get d ''execution_count'' = Some (PInt (execution_count self))
          \<and> (execution_count self = 0
               \<longrightarrow> dict_get d ''average_execution_time'' = Some (PInt 0))"
    by (simp add: get_stats_def py_truediv_def dict_get_def)
  show ?thesis
  proof (cases r)
    case (Inl e)
    with Pair have t: "execute_try cls clk inp self = (Inl e, self')" by simp
    from execute_Inl[OF t] execute_try_Inl_stats[OF t] stats show ?thesis
      by (simp add: metadata_success_def dict_get_def)
  next
    case (Inr out)
    with Pair have t: "execute_try cls clk inp self = (Inr out, self')" by simp
    from execute_Inr[OF t] execute_try_Inr_metadata[OF t] execute_try_Inr_stats[OF t] stats
    show ?thesis
      by (auto simp: metadata_success_def)
  qed
qed

theorem failed_execute_keeps_stats_witness:
  "execution_count (snd (execute raising_class demo_clock [] demo_agent)) = 0
   \<and> execution_count (snd (execute rejecting_class demo_clock [] demo_agent)) = 0
   \<and> execution_count (snd (execute accepting_class demo_clock [] demo_agent)) = 1
   \<and> (\<exists>d. get_stats demo_agent = Inr d \<and> dict_get d ''average_execution_time'' = Some (PInt 0))"
  using failed_execute_keeps_stats[of raising_class demo_clock "[]" demo_agent]
        failed_execute_keeps_stats[of rejecting_class demo_clock "[]" demo_agent]
        failed_execute_keeps_stats[of accepting_class demo_clock "[]" demo_agent]
  by (auto simp: execute_def execute_try_def raising_class_def rejecting_class_def
        accepting_class_def demo_agent_def demo_clock_def metadata_success_def dict_get_def)

section \<open>Reference resolution: results\<close>

lemma get_nested_value_state:
  "get_nested_value cfg path state = (r, state') \<Longrightarrow> state' = state"
  by (auto simp: get_nested_value_def split: list.splits if_splits)

lemma resolve_state:
  "snd (resolve_items cfg items resolved state) = state"
  "snd (resolve_list cfg xs state) = state"
proof (induction cfg items resolved state and cfg xs state rule: resolve_items_resolve_list.induct)
  case (2 cfg key s rest resolved state)
  then show ?case
    by (auto split: option.splits prod.splits sum.splits dest: get_nested_value_state)
qed (auto split: prod.splits sum.splits)


lemma navigate_missing:
  "nested_lookup v (filter (\<lambda>p. p \<noteq> ''output'') parts) = None \<Longrightarrow> navigate v parts = PNone"
proof (induction v parts rule: navigate.induct)
  case (2 d part rest)
  then show ?case
    by (cases "part = ''output''") (auto split: option.splits pyval.splits)
qed auto

text \<open>
  Claim C9. Resolving an input mapping returns the run state it was given, and
  resolving the same mapping again against the state the first resolution left
  gives the same outcome: the same resolved dict, or the same exception.
\<close>

theorem resolve_is_pure:
  "snd (resolve_input_references cfg ins state) = state
   \<and> fst (resolve_input_references cfg ins (snd (resolve_input_references cfg ins state)))
       = fst (resolve_input_references cfg ins state)"
  by (simp add: resolve_input_references_def resolve_state)

theorem resolve_is_pure_witness:
  "resolve_input_references PNone [(''leads'', PStr ''{{prospect_search.output.leads}}'')] test_state
     = (Inr [(''leads'', PList [PDict [(''name'', PStr ''Test Lead 1'')]])], test_state)"
  using resolve_is_pure[of PNone "[(''leads'', PStr ''{{prospect_search.output.leads}}'')]" test_state]
  by (simp add: resolve_input_references_def py_split_def get_nested_value_def test_state_def dict_get_def)

text \<open>
  Claim C7. A path is split at the dots, and the segment \<^verbatim>\<open>output\<close> is the
  transparent keyword that resolution skips. When the root of the path is not
  \<^verbatim>\<open>config\<close>, resolution never raises; it yields None when the root is absent
  from the state, and more generally when some segment does not exist in the nested
  structure. When the root is \<^verbatim>\<open>config\<close> and the second segment is neither
  \<^verbatim>\<open>scoring\<close> nor \<^verbatim>\<open>icp\<close>, it yields None. The state is returned as it was.
\<close>

theorem missing_reference_yields_none:
  "(\<forall>root rest. py_split path ''.'' = root # rest \<and> root \<noteq> ''config'' \<and> root \<noteq> ''output''
        \<and> dict_get state root = None
      \<longrightarrow> get_nested_value cfg path state = (Inr PNone, state))
   \<and> (\<forall>root rest. py_split path ''.'' = root # rest \<and> root \<noteq> ''config''
        \<and> nested_lookup (PDict state) (filter (\<lambda>p. p \<noteq> ''output'') (root # rest)) = None
      \<longrightarrow> get_nested_value cfg path state = (Inr PNone, state))
   \<and> (\<forall>root rest. py_split path ''.'' = root # rest \<and> root \<noteq> ''config''
      \<longrightarrow> (\<exists>v. get_nested_value cfg path state = (Inr v, state)))
   \<and> (\<forall>p1 rest. py_split path ''.'' = ''config'' # p1 # rest \<and> p1 \<noteq> ''scoring'' \<and> p1 \<noteq> ''icp''
      \<longrightarrow> get_nested_value cfg path state = (Inr PNone, state))"
proof (intro conjI allI impI)
  fix root rest
  assume a: "py_split path ''.'' = root # rest \<and> root \<noteq> ''config'' \<and> root \<noteq> ''output''
        \<and> dict_get state root = None"
  then show "get_nested_value cfg path state = (Inr PNone, state)"
    by (simp add: get_nested_value_def)
next
  fix root rest
  assume a: "py_split path ''.'' = root # rest \<and> root \<noteq> ''config''
        \<and> nested_lookup (PDict state) (filter (\<lambda>p. p \<noteq> ''output'') (root # rest)) = None"
  then have "navigate (PDict state) (root # rest) = PNone"
    using navigate_missing[of "PDict state" "root # rest"] by blast
  with a show "get_nested_value cfg path state = (Inr PNone, state)"
    by (simp add: get_nested_value_def)
next
  fix root rest
  assume "py_split path ''.'' = root # rest \<and> root \<noteq> ''config''"
  then show "\<exists>v. get_nested_value cfg path state = (Inr v, state)"
    by (simp add: get_nested_value_def)
next
  fix p1 rest
  assume "py_split path ''.'' = ''config'' # p1 # rest \<and> p1 \<noteq> ''scoring'' \<and> p1 \<noteq> ''icp''"
  then show "get_nested_value cfg path state = (Inr PNone, state)"
    by (simp add: get_nested_value_def)
qed

lemma py_split_enrichment_path: "py_split ''enrichment.output.leads'' ''.'' = [''enrichment'', ''output'', ''leads'']"
  by (simp add: py_split_def)

lemma py_split_config_unknown: "py_split ''config.unknown'' ''.'' = [''config'', ''unknown'']"
  by (simp add: py_split_def)

theorem missing_reference_yields_none_witness:
  "get_nested_value PNone ''enrichment.output.leads'' test_state = (Inr PNone, test_state)
   \<and> get_nested_value PNone ''config.unknown'' test_state = (Inr PNone, test_state)"
  using missing_reference_yields_none[of "''enrichment.output.leads''" test_state PNone]
        missing_reference_yields_none[of "''config.unknown''" test_state PNone]
  by (simp add: py_split_enrichment_path py_split_config_unknown test_state_def dict_get_def)

section \<open>Node execution: results\<close>

lemma resolve_input_references_state:
  "resolve_input_references cfg ins state = (r, state_r) \<Longrightarrow> state_r = state"
  using resolve_state(1)[of cfg ins "[]" state] by (simp add: resolve_input_references_def)

lemma append_error_list:
  "dict_get state ''errors'' = Some (PList es) \<Longrightarrow>
   append_error state sid msg now
     = Inr (dict_set state ''errors'' (PList (es @ [error_record sid msg now])))"
  by (simp add: append_error_def)

lemma store_output_get:
  assumes "sid \<noteq> ''current_step''" "sid \<noteq> ''completed_steps''"
  shows "dict_get (store_output st sid res) sid = Some res"
    and "dict_get (store_output st sid res) ''current_step'' = Some (PStr sid)"
    and "dict_get (store_output st sid res) ''completed_steps'' = Some (PList [PStr sid])"
  using assms by (simp_all add: store_output_def dict_get_dict_set_same dict_get_dict_set_other)

lemma store_output_errors:
  assumes "sid \<noteq> ''errors''"
  shows "dict_get (store_output st sid res) ''errors'' = dict_get st ''errors''"
  using assms by (simp add: store_output_def dict_get_dict_set_other)

text \<open>
  Claim C2, as the code has it. When the agent is registered, the input mapping
  resolves, \<^verbatim>\<open>execute\<close> returns a result whose metadata can be read, the state's
  \<^verbatim>\<open>errors\<close> entry is a list and the step id is none of the state's own keys
  \<^verbatim>\<open>errors\<close>, \<^verbatim>\<open>current_step\<close>, \<^verbatim>\<open>completed_steps\<close>: the node returns a
  state that holds the full result under the step id and has the step id as
  \<^verbatim>\<open>current_step\<close> and in \<^verbatim>\<open>completed_steps\<close>, whether or not the result
  reports failure; when it reports failure an error record with the reported error
  is appended to \<^verbatim>\<open>errors\<close>, and otherwise \<^verbatim>\<open>errors\<close> is unchanged.
\<close>

theorem node_stores_output:
  assumes "agents aname = Some agent_exec"
      and "resolve_input_references cfg ins state = (Inr agent_input, state_r)"
      and "agent_exec agent_input = Inr res"
      and "reports_failure res = Inr failed"
      and "dict_get state ''errors'' = Some (PList es)"
      and "sid \<noteq> ''errors'' \<and> sid \<noteq> ''current_step'' \<and> sid \<noteq> ''completed_steps''"
  shows "\<exists>state'. node_function agents cfg sid aname ins now state = Inr state'
     \<and> dict_get state' sid = Some res
     \<and> dict_get state' ''current_step'' = Some (PStr sid)
     \<and> dict_get state' ''completed_steps'' = Some (PList [PStr sid])
     \<and> dict_get state' ''errors''
         = Some (PList (if failed then es @ [error_record sid (reported_error res) now] else es))"
proof -
  have s1: "state_r = state"
    using resolve_input_references_state[OF assms(2)] .
  show ?thesis
  proof (cases failed)
    case True
    let ?st = "dict_set state ''errors'' (PList (es @ [error_record sid (reported_error res) now]))"
    have "node_function agents cfg sid aname ins now state = Inr (store_output ?st sid res)"
      using assms True s1 by (simp add: node_function_def node_try_def append_error_list)
    moreover have "dict_get ?st ''errors'' = Some (PList (es @ [error_record sid (reported_error res) now]))"
      by (simp add: dict_get_dict_set_same)
    ultimately show ?thesis
      using assms(6) True by (simp add: store_output_get store_output_errors)
  next
    case False
    have "node_function agents cfg sid aname ins now state = Inr (store_output state sid res)"
      using assms False s1 by (simp add: node_function_def node_try_def)
    then show ?thesis
      using assms(5,6) False by (simp add: store_output_get store_output_errors)
  qed
qed

text \<open>
  The handler of the node: with a registered agent, a resolved input mapping and a
  list under \<^verbatim>\<open>errors\<close>, an exception that leaves the \<^verbatim>\<open>try\<close> block is
  recorded and the node returns.
\<close>

lemma node_try_fault_recorded:
  assumes "agents aname = Some agent_exec"
      and "resolve_input_references cfg ins state = (Inr agent_input, state_r)"
      and "dict_get state ''errors'' = Some (PList es)"
  shows "(\<exists>state'. node_function agents cfg sid aname ins now state = Inr state')
     \<and> (\<forall>e. node_try agent_exec sid agent_input now state = Inl e
          \<longrightarrow> node_function agents cfg sid aname ins now state
                = Inr (dict_set state ''errors''
                        (PList (es @ [error_record sid
                                        (PStr (''Exception during execution: '' @ exn_msg e)) now]))))
     \<and> (\<forall>e. agent_exec agent_input = Inl e
          \<longrightarrow> node_try agent_exec sid agent_input now state = Inl e)
     \<and> (\<forall>e v. agent_exec agent_input = Inr v \<and> reports_failure v = Inl e
          \<longrightarrow> node_try agent_exec sid agent_input now state = Inl e)"
proof -
  have s1: "state_r = state"
    using resolve_input_references_state[OF assms(2)] .
  have a: "\<forall>e. node_try agent_exec sid agent_input now state = Inl e
          \<longrightarrow> node_function agents cfg sid aname ins now state
                = Inr (dict_set state ''errors''
                        (PList (es @ [error_record sid
                                        (PStr (''Exception during execution: '' @ exn_msg e)) now])))"
    using assms s1 by (simp add: node_function_def append_error_list)
  have b: "\<exists>state'. node_function agents cfg sid aname ins now state = Inr state'"
  proof (cases "node_try agent_exec sid agent_input now state")
    case (Inl e)
    with a show ?thesis by simp
  next
    case (Inr st)
    then show ?thesis using assms s1 by (simp add: node_function_def)
  qed
  have c: "\<forall>e. agent_exec agent_input = Inl e
          \<longrightarrow> node_try agent_exec sid agent_input now state = Inl e"
    by (simp add: node_try_def)
  have d: "\<forall>e v. agent_exec agent_input = Inr v \<and> reports_failure v = Inl e
          \<longrightarrow> node_try agent_exec sid agent_input now state = Inl e"
    by (simp add: node_try_def)
  from a b c d show ?thesis by blast
qed


lemma rejecting_agent_result:
  "bound_execute rejecting_class demo_clock demo_agent [] = Inr (PDict rejected_result)"
  by (simp add: bound_execute_def execute_def execute_try_def rejecting_class_def
        demo_agent_def demo_clock_def rejected_result_def)

lemma resolve_no_inputs: "resolve_input_references cfg [] state = (Inr [], state)"
  by (simp add: resolve_input_references_def)

lemma rejected_result_reported_error:
  "reported_error (PDict rejected_result) = PStr ''Input validation failed for ScoringAgent''"
  by (simp add: reported_error_def rejected_result_def dict_get_def)

lemma rejected_result_reports_failure: "reports_failure (PDict rejected_result) = Inr True"
  by (simp add: reports_failure_def rejected_result_def dict_get_def)

theorem node_stores_output_witness:
  "\<exists>state'. node_function demo_agents PNone ''scoring'' ''ScoringAgent'' [] ''t1'' empty_run = Inr state'
     \<and> dict_get state' ''scoring'' = Some (PDict rejected_result)
     \<and> dict_get state' ''completed_steps'' = Some (PList [PStr ''scoring''])
     \<and> dict_get state' ''errors''
         = Some (PList [error_record ''scoring''
                          (PStr ''Input validation failed for ScoringAgent'') ''t1''])"
  using node_stores_output[where agents = demo_agents and aname = "''ScoringAgent''"
          and agent_exec = "bound_execute rejecting_class demo_clock demo_agent"
          and cfg = PNone and ins = "[]" and state = empty_run and agent_input = "[]"
          and state_r = empty_run and res = "PDict rejected_result" and failed = True
          and es = "[]" and sid = "''scoring''" and now = "''t1''"]
  by (auto simp: demo_agents_def resolve_no_inputs rejecting_agent_result
        rejected_result_reports_failure rejected_result_reported_error empty_run_def dict_get_def)

text \<open>
  Claim C2 as stated fails: the result of a rejected validation reports failure, and
  the state the node returns has the step in \<^verbatim>\<open>completed_steps\<close>.
\<close>

theorem failed_step_completed_counterexample:
  "reports_failure (PDict rejected_result) = Inr True
   \<and> node_function demo_agents PNone ''scoring'' ''ScoringAgent'' [] ''t1'' empty_run
       = Inr [(''errors'',
                 PList [error_record ''scoring''
                          (PStr ''Input validation failed for ScoringAgent'') ''t1'']),
              (''completed_steps'', PList [PStr ''scoring'']),
              (''scoring'', PDict rejected_result),
              (''current_step'', PStr ''scoring'')]"
  by (simp add: rejected_result_reports_failure rejected_result_reported_error
        node_function_def demo_agents_def resolve_no_inputs node_try_def rejecting_agent_result
        append_error_def empty_run_def dict_get_def store_output_def)

section \<open>Workflow validation: results\<close>









lemma str_split_skip:
  "\<forall>c\<in>set xs. c \<noteq> s0 \<Longrightarrow>
   str_split (s0 # srest) acc (xs @ ys) = str_split (s0 # srest) (rev xs @ acc) ys"
  by (induction xs arbitrary: acc) auto




lemma dotted_root_shape:
  assumes "dotted_root s = Some rt"
  shows "\<exists>rest. s = ''{{'' @ rt @ ''.'' @ rest @ ''}}''
           \<and> CHR ''.'' \<notin> set rt
           \<and> list_all (\<lambda>c. c \<noteq> CHR ''{'' \<and> c \<noteq> CHR ''}'' \<and> c \<noteq> CHR 0x0A) (rt @ ''.'' @ rest)"
proof -
  let ?body = "take (length s - 4) (drop 2 s)"
  from assms have p: "prefix ''{{'' s" and sf: "suffix ''}}'' (drop 2 s)"
    and clean: "list_all (\<lambda>c. c \<noteq> CHR ''{'' \<and> c \<noteq> CHR ''}'' \<and> c \<noteq> CHR 0x0A) ?body"
    and len: "length (takeWhile (\<lambda>c. c \<noteq> CHR ''.'') ?body) < length ?body"
    and rt: "rt = takeWhile (\<lambda>c. c \<noteq> CHR ''.'') ?body"
    by (auto simp: dotted_root_def Let_def split: if_splits)
  from p obtain t where t: "s = ''{{'' @ t" by (auto simp: prefix_def)
  with sf obtain zs where zs: "t = zs @ ''}}''" by (auto simp: suffix_def)
  have body: "?body = zs" using t zs by simp
  have "zs = takeWhile (\<lambda>c. c \<noteq> CHR ''.'') zs @ dropWhile (\<lambda>c. c \<noteq> CHR ''.'') zs"
    by simp
  moreover from len body have ne: "dropWhile (\<lambda>c. c \<noteq> CHR ''.'') zs \<noteq> []"
    by (metis append_Nil2 less_irrefl takeWhile_dropWhile_id)
  then obtain rest where rest: "dropWhile (\<lambda>c. c \<noteq> CHR ''.'') zs = CHR ''.'' # rest"
    using hd_dropWhile[OF ne] by (cases "dropWhile (\<lambda>c. c \<noteq> CHR ''.'') zs") auto
  ultimately have z: "zs = rt @ ''.'' @ rest" using rt body by simp
  have "CHR ''.'' \<notin> set rt"
    using rt by (auto dest: set_takeWhileD)
  with t zs z clean body show ?thesis by auto
qed



lemma lazy_group_clean:
  "body \<noteq> [] \<Longrightarrow> list_all (\<lambda>c. c \<noteq> CHR ''}'' \<and> c \<noteq> CHR 0x0A) body \<Longrightarrow>
   lazy_group acc (body @ ''}}'') = Some (rev acc @ body)"
proof (induction body arbitrary: acc)
  case Nil
  then show ?case by simp
next
  case (Cons c cs)
  from Cons.prems have c: "c \<noteq> CHR 0x0A" by simp
  show ?case
  proof (cases cs)
    case Nil
    with c show ?thesis by simp
  next
    case (Cons c' cs')
    with Cons.prems have "c' \<noteq> CHR ''}''" by simp
    with Cons have np: "\<not> prefix ''}}'' (cs @ ''}}'')" by simp
    from Cons Cons.prems have "cs \<noteq> []" "list_all (\<lambda>c. c \<noteq> CHR ''}'' \<and> c \<noteq> CHR 0x0A) cs"
      by simp_all
    from Cons.IH[OF this, of "c # acc"] have "lazy_group (c # acc) (cs @ ''}}'') = Some (rev acc @ c # cs)"
      by simp
    with c np show ?thesis by simp
  qed
qed

lemma dotted_root_resolver:
  assumes "dotted_root s = Some rt"
  shows "\<exists>path segs. re_search_ref s = Some path \<and> py_split path ''.'' = rt # segs"
proof -
  from dotted_root_shape[OF assms] obtain rest where
    s: "s = ''{{'' @ rt @ ''.'' @ rest @ ''}}''" and d: "CHR ''.'' \<notin> set rt"
    and cl: "list_all (\<lambda>c. c \<noteq> CHR ''{'' \<and> c \<noteq> CHR ''}'' \<and> c \<noteq> CHR 0x0A) (rt @ ''.'' @ rest)"
    by blast
  let ?body = "rt @ ''.'' @ rest"
  have "list_all (\<lambda>c. c \<noteq> CHR ''}'' \<and> c \<noteq> CHR 0x0A) ?body"
    using cl by (auto simp: list_all_iff)
  moreover have "?body \<noteq> []" by simp
  ultimately have "lazy_group [] (?body @ ''}}'') = Some ?body"
    using lazy_group_clean[of ?body "[]"] by simp
  then have r: "re_search_ref s = Some ?body"
    using s by simp
  have "\<forall>c\<in>set rt. c \<noteq> CHR ''.''" using d by auto
  from str_split_skip[OF this, of "[]" "[]" "''.'' @ rest"]
  have "py_split ?body ''.'' = rt # str_split ''.'' [] rest"
    by (simp add: py_split_def)
  with r show ?thesis by blast
qed











lemma dangling_doc_dependencies:
  "validate_dependencies dangling_doc
     = Inr (False, ''Step score references non-existent step: missing'')"
  by (simp add: validate_dependencies_def dangling_doc_def mk_step_def py_split_def)





text \<open>
  Outside the claim as amended: a reference without a dot. The resolver reads
  \<^verbatim>\<open>{{search}}\<close> as the path \<^verbatim>\<open>search\<close>, whose root is a declared step; the
  two \<^verbatim>\<open>split\<close> calls of the validator take \<^verbatim>\<open>search}}\<close> from it, and the
  check fails.
\<close>

lemma dotless_reference_rejected:
  "re_search_ref ''{{search}}'' = Some ''search''
   \<and> dotted_root ''{{search}}'' = None
   \<and> validate_dependencies nodot_doc
       = Inr (False, ''Step score references non-existent step: search}}'')"
  by (simp add: dotted_root_def suffix_to_prefix validate_dependencies_def nodot_doc_def
        mk_step_def py_split_def)

lemma validate_id_identifier:
  "validate_id ''search'' = Inr ''search''"
  "validate_id ''score'' = Inr ''score''"
  "validate_id ''scoring'' = Inr ''scoring''"
  "validate_id ''zz'' = Inr ''zz''"
  by (simp_all add: validate_id_def isalnum_def is_alnum_char_def)

lemma raw_step_errors:
  "validate_id sid = Inr sid \<Longrightarrow> step_errors (raw_step sid aname ins) = []"
  by (simp add: step_errors_def raw_step_def validated_str_field_def validate_agent_def
        dict_field_def str_field_def tools_field_def dict_get_def)

lemma raw_step_to_step: "to_step (raw_step sid aname ins) = mk_step sid aname ins"
  by (simp add: to_step_def raw_step_def mk_step_def get_str_def get_dict_def dict_get_def)

lemma validate_dangling_raw: "validate dangling_raw = Inr dangling_doc"
  by (simp add: validate_def steps_field_def dangling_raw_def raw_document_def str_field_def
        get_str_def dict_get_def raw_step_errors raw_step_to_step validate_id_identifier
        validate_steps_def mk_step_def dangling_doc_def)

text \<open>
  Claim C4, evaluated on a document whose second step refers to a step that does not
  exist: \<^verbatim>\<open>validate_dependencies\<close> returns False and
  \<^verbatim>\<open>validate_workflow_file\<close> returns the definition all the same.
\<close>

theorem validate_workflow_file_ignores_dependencies:
  "validate_dependencies dangling_doc
     = Inr (False, ''Step score references non-existent step: missing'')
   \<and> validate_workflow_file (Inr dangling_raw) = Inr dangling_doc"
  by (simp add: dangling_doc_dependencies validate_workflow_file_def validate_dangling_raw)

lemma sublist_join:
  "x \<in> set xs \<Longrightarrow> sublist x (join sep xs)"
proof (induction sep xs rule: join.induct)
  case (1 sep)
  then show ?case by simp
next
  case (2 sep y)
  then show ?case by simp
next
  case (3 sep y z zs)
  show ?case
  proof (cases "x = y")
    case True
    then show ?thesis by (simp add: sublist_def) (metis append_Nil)
  next
    case False
    with 3 have "sublist x (join sep (z # zs))" by simp
    then obtain ps ss where "join sep (z # zs) = ps @ x @ ss"
      by (auto simp: sublist_def)
    then have "join sep (y # z # zs) = (y @ sep @ ps) @ x @ ss" by simp
    then show ?thesis unfolding sublist_def by blast
  qed
qed

lemma sublist_repr_list:
  assumes "x \<in> set xs"
  shows "sublist x (pre @ repr_list xs)"
proof -
  have "repr_str x \<in> set (map repr_str xs)" using assms by simp
  from sublist_join[OF this, of "'', ''"] obtain ps ss where
    j: "join '', '' (map repr_str xs) = ps @ repr_str x @ ss"
    unfolding sublist_def by blast
  have "pre @ repr_list xs = (pre @ ''['' @ ps @ [CHR 0x27]) @ x @ ([CHR 0x27] @ ss @ '']'')"
    by (simp add: repr_list_def j repr_str_def)
  then show ?thesis unfolding sublist_def by blast
qed

lemma validate_steps_duplicates:
  assumes "\<not> distinct (map step_id v)"
  shows "validate_steps v
     = Inl (Exn ''ValueError''
            (''Duplicate step IDs found: ''
             @ repr_list (filter (\<lambda>sid. count_list (map step_id v) sid > 1) (map step_id v))))"
proof -
  have "v \<noteq> []" using assms by auto
  moreover have "length (map step_id v) \<noteq> length (remdups (map step_id v))"
    using assms by (metis distinct_remdups length_remdups_eq)
  ultimately show ?thesis
    unfolding validate_steps_def Let_def by simp
qed

lemma duplicate_has_count:
  "\<not> distinct xs \<Longrightarrow> \<exists>x. 1 < count_list xs x"
proof (induction xs)
  case Nil
  then show ?case by simp
next
  case (Cons a xs)
  show ?case
  proof (cases "a \<in> set xs")
    case True
    then have "count_list xs a \<noteq> 0" by (simp add: count_list_0_iff)
    then have "0 < count_list xs a" by simp
    then have "1 < count_list (a # xs) a" by simp
    then show ?thesis by blast
  next
    case False
    with Cons obtain x where "1 < count_list xs x" by auto
    then have "1 < count_list (a # xs) x" by simp
    then show ?thesis by blast
  qed
qed

lemma step_without_errors:
  assumes "step_errors item = []"
  shows "\<exists>d s. item = PDict d \<and> dict_get d ''id'' = Some (PStr s) \<and> step_id (to_step item) = s"
proof -
  from assms obtain d where d: "item = PDict d"
    by (cases item) (auto simp: step_errors_def)
  with assms have "validated_str_field validate_id d ''id'' = []"
    by (simp add: step_errors_def)
  then obtain s where s: "dict_get d ''id'' = Some (PStr s)"
    by (auto simp: validated_str_field_def split: option.splits pyval.splits)
  with d have "step_id (to_step item) = s"
    by (simp add: to_step_def get_str_def)
  with d s show ?thesis by blast
qed

lemma steps_without_errors_ids:
  "list_all (\<lambda>item. step_errors item = []) items \<Longrightarrow>
   map step_id (map to_step items)
     = concat (map (\<lambda>item. case item of
                      PDict d \<Rightarrow> (case dict_get d ''id'' of Some (PStr s) \<Rightarrow> [s] | _ \<Rightarrow> [])
                    | _ \<Rightarrow> []) items)"
proof (induction items)
  case Nil
  then show ?case by simp
next
  case (Cons item items)
  then have "step_errors item = []" by simp
  from step_without_errors[OF this] obtain d s where
    "item = PDict d" "dict_get d ''id'' = Some (PStr s)" "step_id (to_step item) = s"
    by blast
  with Cons show ?case by simp
qed

lemma no_step_errors:
  "concat (map step_errors items) = [] \<longleftrightarrow> list_all (\<lambda>item. step_errors item = []) items"
  by (induction items) auto

lemma steps_field_duplicates:
  assumes "dict_get data ''steps'' = Some (PList items)"
      and "list_all (\<lambda>item. step_errors item = []) items"
      and "\<not> distinct (document_step_ids data)"
  shows "steps_field data
     = Inl [''Value error, '' @ ''Duplicate step IDs found: ''
            @ repr_list (filter (\<lambda>sid. 1 < count_list (document_step_ids data) sid)
                           (document_step_ids data))]"
proof -
  have ids: "map step_id (map to_step items) = document_step_ids data"
    using steps_without_errors_ids[OF assms(2)] assms(1) by (simp add: document_step_ids_def)
  with assms(3) have nd: "\<not> distinct (map step_id (map to_step items))" by simp
  have e: "concat (map step_errors items) = []"
    using assms(2) by (simp only: no_step_errors)
  have "steps_field data
     = (case validate_steps (map to_step items) of
          Inl e \<Rightarrow> Inl [''Value error, '' @ exn_msg e]
        | Inr v \<Rightarrow> Inr v)"
    using assms(1) e by (simp add: steps_field_def)
  also have "\<dots> = Inl [''Value error, '' @ ''Duplicate step IDs found: ''
            @ repr_list (filter (\<lambda>sid. 1 < count_list (map step_id (map to_step items)) sid)
                           (map step_id (map to_step items)))]"
    by (simp only: validate_steps_duplicates[OF nd]) simp
  finally show ?thesis by (simp only: ids)
qed

lemma steps_field_fails:
  assumes "\<not> distinct (document_step_ids data)"
  shows "\<exists>errs. steps_field data = Inl errs"
proof (cases "dict_get data ''steps''")
  case None
  then show ?thesis by (simp add: steps_field_def)
next
  case (Some v)
  show ?thesis
  proof (cases "\<exists>items. v = PList items")
    case True
    then obtain items where v: "v = PList items" by blast
    show ?thesis
    proof (cases "list_all (\<lambda>item. step_errors item = []) items")
      case True
      from steps_field_duplicates[OF _ True assms] Some v show ?thesis by simp
    next
      case False
      then have "concat (map step_errors items) \<noteq> []"
        by (simp only: no_step_errors) simp
      with Some v show ?thesis by (simp add: steps_field_def)
    qed
  next
    case False
    with Some show ?thesis by (cases v) (auto simp: steps_field_def)
  qed
qed

text \<open>
  Claim C8, as the code has it. A document in which two steps share an id never
  validates. When in addition every element of \<^verbatim>\<open>steps\<close> passes the checks of
  its own fields, the errors reported include the ValueError of
  \<^verbatim>\<open>validate_steps\<close>, and every id that occurs more than once appears in its
  message.
\<close>

theorem duplicate_ids_rejected:
  "(\<not> distinct (document_step_ids data) \<longrightarrow> (\<exists>errs. validate data = Inl errs))
   \<and> (\<not> distinct (document_step_ids data) \<and> steps_pass_field_checks data
      \<longrightarrow> (\<exists>errs msg. validate data = Inl errs
             \<and> msg \<in> set errs
             \<and> msg = ''Value error, Duplicate step IDs found: ''
                     @ repr_list (filter (\<lambda>sid. 1 < count_list (document_step_ids data) sid)
                                    (document_step_ids data))
             \<and> (\<exists>sid. 1 < count_list (document_step_ids data) sid)
             \<and> (\<forall>sid. 1 < count_list (document_step_ids data) sid \<longrightarrow> sublist sid msg)))"
proof (intro conjI impI)
  assume d: "\<not> distinct (document_step_ids data)"
  from steps_field_fails[OF d] obtain errs where "steps_field data = Inl errs" by blast
  then show "\<exists>errs. validate data = Inl errs"
    by (simp add: validate_def Let_def)
next
  assume a: "\<not> distinct (document_step_ids data) \<and> steps_pass_field_checks data"
  let ?ids = "document_step_ids data"
  let ?dups = "filter (\<lambda>sid. 1 < count_list ?ids sid) ?ids"
  let ?msg = "''Value error, Duplicate step IDs found: '' @ repr_list ?dups"
  from a have d: "\<not> distinct ?ids" by simp
  from a obtain items where it: "dict_get data ''steps'' = Some (PList items)"
      and ok: "list_all (\<lambda>item. step_errors item = []) items"
    by (auto simp: steps_pass_field_checks_def split: option.splits pyval.splits)
  have sf: "steps_field data = Inl [?msg]"
    using steps_field_duplicates[OF it ok d] by simp
  let ?errs = "str_field data ''workflow_name'' @ str_field data ''description'' @ [?msg]"
  have v: "validate data = Inl ?errs"
    using sf by (simp add: validate_def Let_def)
  have m: "?msg \<in> set ?errs" by simp
  have ex: "\<exists>sid. 1 < count_list ?ids sid"
    using duplicate_has_count[OF d] .
  have sub: "\<forall>sid. 1 < count_list ?ids sid \<longrightarrow> sublist sid ?msg"
  proof (intro allI impI)
    fix sid
    assume c: "1 < count_list ?ids sid"
    then have "sid \<in> set ?ids"
      by (metis count_list_0_iff not_less_zero)
    with c have "sid \<in> set ?dups" by simp
    then show "sublist sid ?msg"
      using sublist_repr_list[of sid ?dups "''Value error, Duplicate step IDs found: ''"] by simp
  qed
  show "\<exists>errs msg. validate data = Inl errs
             \<and> msg \<in> set errs
             \<and> msg = ''Value error, Duplicate step IDs found: ''
                     @ repr_list (filter (\<lambda>sid. 1 < count_list (document_step_ids data) sid)
                                    (document_step_ids data))
             \<and> (\<exists>sid. 1 < count_list (document_step_ids data) sid)
             \<and> (\<forall>sid. 1 < count_list (document_step_ids data) sid \<longrightarrow> sublist sid msg)"
  proof (rule exI[of _ ?errs], rule exI[of _ ?msg], intro conjI)
    show "validate data = Inl ?errs" by (rule v)
    show "?msg \<in> set ?errs" by (rule m)
    show "?msg = ?msg" by (rule refl)
    show "\<exists>sid. 1 < count_list ?ids sid" by (rule ex)
    show "\<forall>sid. 1 < count_list ?ids sid \<longrightarrow> sublist sid ?msg" by (rule sub)
  qed
qed

lemma duplicate_raw_ids: "document_step_ids duplicate_raw = [''zz'', ''zz'']"
  by (simp add: document_step_ids_def duplicate_raw_def raw_document_def raw_step_def dict_get_def)

lemma duplicate_raw_checks: "steps_pass_field_checks duplicate_raw"
  by (simp add: steps_pass_field_checks_def duplicate_raw_def raw_document_def dict_get_def
        raw_step_errors validate_id_identifier)

theorem duplicate_ids_rejected_witness:
  "document_step_ids duplicate_raw = [''zz'', ''zz'']
   \<and> steps_pass_field_checks duplicate_raw
   \<and> validate duplicate_raw
       = Inl [''Value error, Duplicate step IDs found: '' @ repr_list [''zz'', ''zz'']]
   \<and> sublist ''zz'' (''Value error, Duplicate step IDs found: '' @ repr_list [''zz'', ''zz''])"
proof -
  have v: "validate duplicate_raw
       = Inl [''Value error, Duplicate step IDs found: '' @ repr_list [''zz'', ''zz'']]"
    by (simp add: validate_def steps_field_def duplicate_raw_def raw_document_def str_field_def
          dict_get_def raw_step_errors raw_step_to_step validate_id_identifier
          validate_steps_def mk_step_def)
  have "1 < count_list (document_step_ids duplicate_raw) ''zz''"
    by (simp add: duplicate_raw_ids)
  with duplicate_ids_rejected[of duplicate_raw] duplicate_raw_ids duplicate_raw_checks v
  have "sublist ''zz'' (''Value error, Duplicate step IDs found: '' @ repr_list [''zz'', ''zz''])"
    by auto
  with v duplicate_raw_ids duplicate_raw_checks show ?thesis by simp
qed

text \<open>
  Claim C8 as stated fails when another element of \<^verbatim>\<open>steps\<close> has an error of
  its own, here a malformed id: \<^verbatim>\<open>validate_steps\<close> does not run, and the
  duplicated id \<^verbatim>\<open>zz\<close> is not in the reported error.
\<close>

theorem duplicate_with_malformed_id_counterexample:
  "\<not> distinct (document_step_ids duplicate_malformed_raw)
   \<and> validate duplicate_malformed_raw
       = Inl [''Value error, Step ID must be alphanumeric with underscores: q-'']
   \<and> \<not> sublist ''zz'' ''Value error, Step ID must be alphanumeric with underscores: q-''"
proof -
  have e: "step_errors (raw_step ''q-'' ''ScoringAgent'' [])
            = [''Value error, Step ID must be alphanumeric with underscores: q-'']"
    by (simp add: step_errors_def raw_step_def validated_str_field_def validate_agent_def
          dict_field_def str_field_def tools_field_def dict_get_def validate_id_def isalnum_def
          is_alnum_char_def)
  have "validate duplicate_malformed_raw
       = Inl [''Value error, Step ID must be alphanumeric with underscores: q-'']"
    by (simp add: validate_def steps_field_def duplicate_malformed_raw_def raw_document_def
          str_field_def dict_get_def raw_step_errors validate_id_identifier e)
  moreover have "\<not> sublist ''zz'' ''Value error, Step ID must be alphanumeric with underscores: q-''"
    by (simp add: sublist_Cons_right)
  moreover have "\<not> distinct (document_step_ids duplicate_malformed_raw)"
    by (simp add: document_step_ids_def duplicate_malformed_raw_def raw_document_def
          raw_step_def dict_get_def)
  ultimately show ?thesis by simp
qed

lemma validate_bare_config_raw: "validate bare_config_raw = Inr bare_config_doc"
  by (simp add: validate_def steps_field_def bare_config_raw_def raw_document_def str_field_def
        get_str_def dict_get_def raw_step_errors raw_step_to_step validate_id_identifier
        validate_steps_def mk_step_def bare_config_doc_def)

section \<open>A fault while a node resolves its inputs\<close>

lemma bare_config_dependencies:
  "validate_dependencies bare_config_doc = Inr (True, '' All step dependencies validated'')"
  by (simp add: validate_dependencies_def bare_config_doc_def bare_config_inputs_def mk_step_def)

text \<open>
  Claim C3, evaluated on a step whose input mapping holds the reference
  \<^verbatim>\<open>{{config}}\<close> inside a dict value. The document validates and the
  dependency check accepts it.
  Resolving the mapping makes \<^verbatim>\<open>_get_nested_value\<close> read a second segment that
  the path does not have; resolution runs before the \<^verbatim>\<open>try\<close> block of the node,
  and the IndexError leaves the node instead of becoming an error record. The
  neighbouring path \<^verbatim>\<open>config.unknown\<close> resolves to None.
\<close>

theorem node_resolution_fault_escapes:
  "validate_workflow_file (Inr bare_config_raw) = Inr bare_config_doc
   \<and> validate_dependencies bare_config_doc = Inr (True, '' All step dependencies validated'')
   \<and> fst (get_nested_value PNone ''config.unknown'' empty_run) = Inr PNone
   \<and> fst (get_nested_value PNone ''config'' empty_run)
       = Inl (Exn ''IndexError'' ''list index out of range'')
   \<and> node_function demo_agents PNone ''scoring'' ''ScoringAgent'' bare_config_inputs ''t1'' empty_run
       = Inl (Exn ''IndexError'' ''list index out of range'')"
  by (simp add: validate_workflow_file_def validate_bare_config_raw bare_config_dependencies
        node_function_def demo_agents_def resolve_input_references_def get_nested_value_def
        py_split_def bare_config_inputs_def)

end
